theory Spec2Isabelle
  imports Complex_Main "HOL-Library.Word" "HOL-Library.AList"
begin

section \<open>JavaScript values\<close>

text \<open>
  A JavaScript string is a sequence of 16-bit code units. Literals of the source are
  written \<open>str ''...''\<close>; the double quote and the apostrophe are the code units
  \<open>0x22\<close> and \<open>0x27\<close>.
\<close>

type_synonym code_unit = "16 word"

type_synonym jsstring = "code_unit list"

definition cu :: "char \<Rightarrow> code_unit" where
  "cu c = of_char c"

definition str :: "string \<Rightarrow> jsstring" where
  "str s = map cu s"

text \<open>
  A number is a finite value, \<open>NaN\<close> or one of the two infinities. Finite values are
  taken as reals: every double is one, and no rounding of binary floating point is
  modelled. The comparisons are those of the language: every comparison with \<open>NaN\<close>
  is false.
\<close>

datatype jsnum = Fin real | NaN | PosInf | NegInf

fun num_lt :: "jsnum \<Rightarrow> jsnum \<Rightarrow> bool" where
  "num_lt NaN b = False"
| "num_lt a NaN = False"
| "num_lt (Fin x) (Fin y) = (x < y)"
| "num_lt (Fin x) PosInf = True"
| "num_lt (Fin x) NegInf = False"
| "num_lt PosInf b = False"
| "num_lt NegInf NegInf = False"
| "num_lt NegInf b = True"

fun num_le :: "jsnum \<Rightarrow> jsnum \<Rightarrow> bool" where
  "num_le NaN b = False"
| "num_le a NaN = False"
| "num_le (Fin x) (Fin y) = (x \<le> y)"
| "num_le (Fin x) PosInf = True"
| "num_le (Fin x) NegInf = False"
| "num_le PosInf PosInf = True"
| "num_le PosInf b = False"
| "num_le NegInf b = True"

text \<open>
  A \<open>Date\<close> holds a time value, the milliseconds since the epoch, or is an invalid
  date (its time value is \<open>NaN\<close>).
\<close>

datatype date = Date int | InvalidDate

text \<open>
  The values that form data is made of. Functions, symbols and big integers are not
  values of this model; an object is the list of its own enumerable properties in
  enumeration order, its prototype being \<open>Object.prototype\<close>.
\<close>

datatype jsval =
    JUndefined
  | JNull
  | JBool bool
  | JNum jsnum
  | JStr jsstring
  | JDate date
  | JArr "jsval list"
  | JObj "(jsstring \<times> jsval) list"

datatype jstype = TUndefined | TObject | TBoolean | TNumber | TString

fun js_typeof :: "jsval \<Rightarrow> jstype" where
  "js_typeof JUndefined = TUndefined"
| "js_typeof JNull = TObject"
| "js_typeof (JBool b) = TBoolean"
| "js_typeof (JNum n) = TNumber"
| "js_typeof (JStr s) = TString"
| "js_typeof (JDate d) = TObject"
| "js_typeof (JArr xs) = TObject"
| "js_typeof (JObj kvs) = TObject"

fun truthy :: "jsval \<Rightarrow> bool" where
  "truthy JUndefined = False"
| "truthy JNull = False"
| "truthy (JBool b) = b"
| "truthy (JNum n) = (n \<noteq> Fin 0 \<and> n \<noteq> NaN)"
| "truthy (JStr s) = (s \<noteq> [])"
| "truthy (JDate d) = True"
| "truthy (JArr xs) = True"
| "truthy (JObj kvs) = True"

fun instanceof_Date :: "jsval \<Rightarrow> bool" where
  "instanceof_Date (JDate d) = True"
| "instanceof_Date v = False"

fun isArray :: "jsval \<Rightarrow> bool" where
  "isArray (JArr xs) = True"
| "isArray v = False"

text \<open>The number behind a value of type number (\<open>NaN\<close> for the other values).\<close>

fun num_of :: "jsval \<Rightarrow> jsnum" where
  "num_of (JNum n) = n"
| "num_of v = NaN"

text \<open>
  The keys that \<open>for (const key in data)\<close> enumerates, with the values \<open>data[key]\<close>:
  the properties of an object, the indices of an array (written in decimal), nothing
  for a date.
\<close>

function decimal :: "nat \<Rightarrow> jsstring" where
  "decimal n =
     (if n < 10 then [of_nat (48 + n)]
      else decimal (n div 10) @ [of_nat (48 + n mod 10)])"
  by pat_completeness auto
termination
  by (relation "measure id") auto

declare decimal.simps [simp del]

fun own_props :: "jsval \<Rightarrow> (jsstring \<times> jsval) list" where
  "own_props (JObj kvs) = kvs"
| "own_props (JArr xs) = zip (map decimal [0..<length xs]) xs"
| "own_props v = []"

text \<open>
  The white space of the language (\<open>WhiteSpace\<close> and \<open>LineTerminator\<close>): what the
  class \<open>\s\<close> of a regular expression matches and what \<open>trim\<close> removes.
\<close>

definition is_whitespace :: "code_unit \<Rightarrow> bool" where
  "is_whitespace c \<longleftrightarrow>
     (0x09 \<le> c \<and> c \<le> 0x0D) \<or> c = 0x20 \<or> c = 0xA0 \<or> c = 0x1680
     \<or> (0x2000 \<le> c \<and> c \<le> 0x200A) \<or> c = 0x2028 \<or> c = 0x2029 \<or> c = 0x202F
     \<or> c = 0x205F \<or> c = 0x3000 \<or> c = 0xFEFF"

definition js_trim :: "jsstring \<Rightarrow> jsstring" where
  "js_trim s = rev (dropWhile is_whitespace (rev (dropWhile is_whitespace s)))"

text \<open>The errors the two utility modules throw, by their messages.\<close>

datatype error =
    InvalidData  \<comment> \<open>\<open>Error('Invalid data: Expected an object')\<close>\<close>
  | NotAFunction  \<comment> \<open>the \<open>TypeError\<close> of calling a value that is not a function\<close>
  | FailedToSanitize error  \<comment> \<open>\<open>Error(`Failed to sanitize data: ${error.message}`)\<close>\<close>
  | InvalidIncome  \<comment> \<open>\<open>Error('Annual income must be a valid number')\<close>\<close>
  | InvalidStartDate  \<comment> \<open>\<open>Error('Invalid start date')\<close>\<close>
  | InvalidEndDate  \<comment> \<open>\<open>Error('Invalid end date')\<close>\<close>

section \<open>The sanitizing utilities (\<open>utils/sanitize.ts\<close>)\<close>

subsection \<open>\<open>sanitizeString\<close>\<close>

text \<open>\<open>s.replace(/c/g, r)\<close> for a single character \<open>c\<close> and a replacement without \<open>$\<close>.\<close>

definition replace_all :: "code_unit \<Rightarrow> jsstring \<Rightarrow> jsstring \<Rightarrow> jsstring" where
  "replace_all c r s = concat (map (\<lambda>x. if x = c then r else [x]) s)"

definition sanitizeString :: "jsval \<Rightarrow> jsstring" where
  "sanitizeString v =
     (case v of
        JStr s \<Rightarrow>
          replace_all (cu CHR ''/'') (str ''&#x2F;'')
            (replace_all (cu CHR 0x27) (str ''&#x27;'')
              (replace_all (cu CHR 0x22) (str ''&quot;'')
                (replace_all (cu CHR ''>'') (str ''&gt;'')
                  (replace_all (cu CHR ''<'') (str ''&lt;'')
                    (replace_all (cu CHR ''&'') (str ''&amp;'') s)))))
      | _ \<Rightarrow> [])"

text \<open>
  The escaping as the specification words it: each of the six characters has its
  entity, every other character stands for itself.
\<close>

definition escapable :: "code_unit \<Rightarrow> bool" where
  "escapable c \<longleftrightarrow>
     c = cu CHR ''&'' \<or> c = cu CHR ''<'' \<or> c = cu CHR ''>''
     \<or> c = cu CHR 0x22 \<or> c = cu CHR 0x27 \<or> c = cu CHR ''/''"

definition html_entity :: "code_unit \<Rightarrow> jsstring" where
  "html_entity c =
     (if c = cu CHR ''&'' then str ''&amp;''
      else if c = cu CHR ''<'' then str ''&lt;''
      else if c = cu CHR ''>'' then str ''&gt;''
      else if c = cu CHR 0x22 then str ''&quot;''
      else if c = cu CHR 0x27 then str ''&#x27;''
      else if c = cu CHR ''/'' then str ''&#x2F;''
      else [c])"

definition escape_html :: "jsstring \<Rightarrow> jsstring" where
  "escape_html s = concat (map html_entity s)"

subsection \<open>\<open>sanitizeFormData\<close>\<close>

text \<open>
  \<open>data.hasOwnProperty(key)\<close> reads the property \<open>hasOwnProperty\<close> of \<open>data\<close> and calls
  it. An own property of that name shadows the method of \<open>Object.prototype\<close>, and it
  holds a value of this model, none of which is a function: the call throws a
  \<open>TypeError\<close>. Otherwise the inherited method answers whether \<open>key\<close> is an own
  property.
\<close>

definition hasOwnProperty :: "jsval \<Rightarrow> jsstring \<Rightarrow> error + bool" where
  "hasOwnProperty data key =
     (case map_of (own_props data) (str ''hasOwnProperty'') of
        Some f \<Rightarrow> Inl NotAFunction
      | None \<Rightarrow> Inr (key \<in> set (map fst (own_props data))))"

text \<open>
  \<open>sanitized[key] = v\<close> on the object that started as \<open>{}\<close>. The key \<open>__proto__\<close> is
  the accessor of \<open>Object.prototype\<close>: the assignment calls its setter and creates no
  own property. Every other key is written (a new key is appended).
\<close>

definition assign :: "jsstring \<Rightarrow> jsval \<Rightarrow> (jsstring \<times> jsval) list \<Rightarrow> (jsstring \<times> jsval) list" where
  "assign key v sanitized =
     (if key = str ''__proto__'' then sanitized else AList.update key v sanitized)"

lemma sum_zip_le:
  fixes f :: "'b \<Rightarrow> nat"
  shows "sum_list (map (\<lambda>(k, v). f v) (zip ks xs)) \<le> sum_list (map f xs)"
proof (induction xs arbitrary: ks)
  case Nil
  then show ?case by simp
next
  case (Cons x xs)
  show ?case
  proof (cases ks)
    case Nil
    then show ?thesis by simp
  next
    case (Cons k ks')
    with Cons.IH [of ks'] show ?thesis by simp
  qed
qed

lemma sum_list_size_list:
  "sum_list (map (\<lambda>v. 2 * size v + 2) xs) = 2 * size_list size xs"
  by (induction xs) simp_all

lemma sum_props_size_list:
  "sum_list (map (\<lambda>(k, v). 2 * size v + 2) kvs)
     \<le> 2 * size_list (size_prod (\<lambda>x. 0) size) kvs"
  by (induction kvs) auto

lemma own_props_measure:
  "sum_list (map (\<lambda>(k, v). 2 * size v + 2) (own_props data)) \<le> 2 * size data"
proof (cases data)
  case (JArr xs)
  have "sum_list (map (\<lambda>(k, v). 2 * size v + 2) (zip (map decimal [0..<length xs]) xs))
          \<le> sum_list (map (\<lambda>v. 2 * size v + 2) xs)"
    by (rule sum_zip_le)
  also have "\<dots> = 2 * size_list size xs"
    by (rule sum_list_size_list)
  finally show ?thesis using JArr by simp
next
  case (JObj kvs)
  with sum_props_size_list [of kvs] show ?thesis by simp
qed simp_all

text \<open>
  The function and its loop. \<open>sanitize_loop data props sanitized\<close> is the \<open>for\<close> loop
  over the properties \<open>props\<close> still to visit, \<open>sanitized\<close> being the result object so
  far. An error thrown in the loop is caught and thrown again, wrapped.
\<close>

function sanitizeFormData :: "jsval \<Rightarrow> error + jsval"
  and sanitize_loop :: "jsval \<Rightarrow> (jsstring \<times> jsval) list \<Rightarrow> (jsstring \<times> jsval) list
                          \<Rightarrow> error + (jsstring \<times> jsval) list"
where
  "sanitizeFormData data =
     (if \<not> truthy data \<or> js_typeof data \<noteq> TObject then Inl InvalidData
      else case sanitize_loop data (own_props data) [] of
             Inl e \<Rightarrow> Inl (FailedToSanitize e)
           | Inr sanitized \<Rightarrow> Inr (JObj sanitized))"
| "sanitize_loop data [] sanitized = Inr sanitized"
| "sanitize_loop data ((key, value) # rest) sanitized =
     (case hasOwnProperty data key of
        Inl e \<Rightarrow> Inl e
      | Inr False \<Rightarrow> sanitize_loop data rest sanitized
      | Inr True \<Rightarrow>
          (if js_typeof value = TString then
             sanitize_loop data rest (assign key (JStr (sanitizeString value)) sanitized)
           else if instanceof_Date value then
             sanitize_loop data rest (assign key value sanitized)
           else if js_typeof value = TObject \<and> value \<noteq> JNull \<and> \<not> isArray value then
             (case sanitizeFormData value of
                Inl e \<Rightarrow> Inl e
              | Inr v' \<Rightarrow> sanitize_loop data rest (assign key v' sanitized))
           else sanitize_loop data rest (assign key value sanitized)))"
  by pat_completeness auto
termination
  apply (relation "measure (\<lambda>x. case x of
            Inl data \<Rightarrow> 2 * size data + 1
          | Inr (data, props, sanitized) \<Rightarrow> sum_list (map (\<lambda>(k, v). 2 * size v + 2) props))")
        apply simp
  subgoal for data using own_props_measure [of data] by simp
      apply simp_all
  done

text \<open>
  The result as the specification words it: a string is escaped, a nested plain object
  is sanitized property by property, and every other value (a date, a number, a
  boolean, \<open>null\<close>, \<open>undefined\<close>, an array with all it holds) is left as it is.
\<close>

fun sanitized_value :: "jsval \<Rightarrow> jsval" where
  "sanitized_value (JStr s) = JStr (escape_html s)"
| "sanitized_value (JObj kvs) = JObj (map (\<lambda>(k, v). (k, sanitized_value v)) kvs)"
| "sanitized_value v = v"

text \<open>
  An object is ordinary when its property names are distinct and none of them is
  \<open>hasOwnProperty\<close> or \<open>__proto__\<close>, and the plain objects among its values are
  ordinary as well.
\<close>

fun ordinary :: "jsval \<Rightarrow> bool" where
  "ordinary (JObj kvs) \<longleftrightarrow>
     distinct (map fst kvs)
     \<and> str ''hasOwnProperty'' \<notin> set (map fst kvs)
     \<and> str ''__proto__'' \<notin> set (map fst kvs)
     \<and> (\<forall>(k, v) \<in> set kvs. ordinary v)"
| "ordinary v \<longleftrightarrow> True"

subsection \<open>\<open>validateIncome\<close> and \<open>validateEmployerName\<close>\<close>

definition validateIncome :: "jsnum \<Rightarrow> bool" where
  "validateIncome income \<longleftrightarrow> num_le (Fin 0) income \<and> num_le income (Fin 1000000000)"

text \<open>The character class \<open>[a-zA-Z0-9\s\-.,&'()]\<close>.\<close>

definition name_char :: "code_unit \<Rightarrow> bool" where
  "name_char c \<longleftrightarrow>
     (cu CHR ''a'' \<le> c \<and> c \<le> cu CHR ''z'') \<or> (cu CHR ''A'' \<le> c \<and> c \<le> cu CHR ''Z'')
     \<or> (cu CHR ''0'' \<le> c \<and> c \<le> cu CHR ''9'') \<or> is_whitespace c
     \<or> c = cu CHR ''-'' \<or> c = cu CHR ''.'' \<or> c = cu CHR '','' \<or> c = cu CHR ''&''
     \<or> c = cu CHR 0x27 \<or> c = cu CHR ''('' \<or> c = cu CHR '')''"

text \<open>\<open>/^[...]+$/.test(name)\<close>: the whole string, one character of the class or more.\<close>

definition validPattern_test :: "jsstring \<Rightarrow> bool" where
  "validPattern_test name \<longleftrightarrow> name \<noteq> [] \<and> list_all name_char name"

definition validateEmployerName :: "jsstring \<Rightarrow> bool" where
  "validateEmployerName name \<longleftrightarrow> validPattern_test name \<and> length name \<le> 100"

section \<open>The total income (\<open>utils/calculations.ts\<close>)\<close>

subsection \<open>The date library\<close>

text \<open>
  Modelled from the spec: the date library \<open>dayjs\<close> is a package the module imports,
  and only its calls are in the sources. The specification asks for the
  ``fractional-year difference between start and end (calendar-aware, not a fixed
  365-day divisor -- e.g., Feb-to-Feb spans must count as whole years)''. The model is
  the library's month difference: the whole calendar months between the two moments,
  plus the rest as a fraction of the month it falls in, over twelve. Calendar fields are
  read in UTC (the zone of the environment is taken to have no offset). A \<open>dayjs\<close>
  object is the date it wraps.
\<close>

definition leap_year :: "int \<Rightarrow> bool" where
  "leap_year y \<longleftrightarrow> (y mod 4 = 0 \<and> y mod 100 \<noteq> 0) \<or> y mod 400 = 0"

text \<open>Months count from 0 (January) to 11, as the library's \<open>month()\<close> does.\<close>

definition daysInMonth :: "int \<Rightarrow> int \<Rightarrow> int" where
  "daysInMonth y m =
     (if m = 1 then (if leap_year y then 29 else 28)
      else if m = 3 \<or> m = 5 \<or> m = 8 \<or> m = 10 then 30 else 31)"

text \<open>
  The day number (days since 1 January 1970) of a date of the proleptic Gregorian
  calendar, and back. Years are counted from March, in eras of 400 years (146097 days).
\<close>

definition days_from_civil :: "int \<Rightarrow> int \<Rightarrow> int \<Rightarrow> int" where
  "days_from_civil y m d =
     (let y' = (if m \<le> 1 then y - 1 else y);
          era = y' div 400;
          yoe = y' - era * 400;
          mp = (m + 10) mod 12;
          doy = (153 * mp + 2) div 5 + d - 1;
          doe = yoe * 365 + yoe div 4 - yoe div 100 + doy
      in era * 146097 + doe - 719468)"

definition civil_from_days :: "int \<Rightarrow> int \<times> int \<times> int" where
  "civil_from_days z =
     (let z' = z + 719468;
          era = z' div 146097;
          doe = z' - era * 146097;
          yoe = (doe - doe div 1460 + doe div 36524 - doe div 146096) div 365;
          doy = doe - (365 * yoe + yoe div 4 - yoe div 100);
          mp = (5 * doy + 2) div 153;
          d = doy - (153 * mp + 2) div 5 + 1;
          m = (mp + 2) mod 12;
          y = yoe + era * 400 + (if m \<le> 1 then 1 else 0)
      in (y, m, d))"

text \<open>The fields \<open>year()\<close>, \<open>month()\<close> and \<open>date()\<close> of a time value.\<close>

definition year_of :: "int \<Rightarrow> int" where
  "year_of t = fst (civil_from_days (t div 86400000))"

definition month_of :: "int \<Rightarrow> int" where
  "month_of t = fst (snd (civil_from_days (t div 86400000)))"

definition date_of :: "int \<Rightarrow> int" where
  "date_of t = snd (snd (civil_from_days (t div 86400000)))"

text \<open>
  \<open>a.add(n, 'month')\<close>: the same day of the month \<open>n\<close> months later, or the last day
  of that month when it is shorter; the time of day is kept.
\<close>

definition add_months :: "int \<Rightarrow> int \<Rightarrow> int" where
  "add_months t n =
     (let total = year_of t * 12 + month_of t + n;
          y = total div 12;
          m = total mod 12;
          d = min (date_of t) (daysInMonth y m)
      in days_from_civil y m d * 86400000 + t mod 86400000)"

definition monthDiff_ordered :: "int \<Rightarrow> int \<Rightarrow> real" where
  "monthDiff_ordered a b =
     (let wholeMonthDiff = (year_of b - year_of a) * 12 + (month_of b - month_of a);
          anchor = add_months a wholeMonthDiff;
          c = (b - anchor < 0);
          anchor2 = add_months a (wholeMonthDiff + (if c then - 1 else 1))
      in - (of_int wholeMonthDiff
            + of_int (b - anchor)
              / (if c then of_int (anchor - anchor2) else of_int (anchor2 - anchor))))"

definition monthDiff :: "int \<Rightarrow> int \<Rightarrow> real" where
  "monthDiff a b =
     (if date_of a < date_of b then - monthDiff_ordered b a else monthDiff_ordered a b)"

definition isValid :: "date \<Rightarrow> bool" where
  "isValid d \<longleftrightarrow> d \<noteq> InvalidDate"

definition valueOf :: "date \<Rightarrow> jsnum" where
  "valueOf d = (case d of Date t \<Rightarrow> Fin (of_int t) | InvalidDate \<Rightarrow> NaN)"

text \<open>\<open>a.isBefore(b)\<close> compares the two time values.\<close>

definition isBefore :: "date \<Rightarrow> date \<Rightarrow> bool" where
  "isBefore a b \<longleftrightarrow> num_lt (valueOf a) (valueOf b)"

text \<open>\<open>a.diff(b, 'year', true)\<close>.\<close>

definition diff_year :: "date \<Rightarrow> date \<Rightarrow> jsnum" where
  "diff_year a b =
     (case (a, b) of
        (Date ta, Date tb) \<Rightarrow> Fin (monthDiff ta tb / 12)
      | _ \<Rightarrow> NaN)"

subsection \<open>The currency library\<close>

text \<open>
  Modelled from the spec: the library \<open>currency.js\<close> is a package the module imports;
  the sources hold its type declaration (a \<open>value\<close>, an \<open>intValue\<close>, \<open>multiply\<close>) and
  the calls. The specification asks for \<open>total = annualIncome * years\<close>, ``computed
  with currency-safe (no binary floating-point drift for two-decimal money)
  arithmetic''. The model keeps an amount as a whole number of cents, rounded by
  \<open>Math.round\<close>, and rounds a product to cents again. The arithmetic on \<open>NaN\<close> and
  the infinities is that of the language.
\<close>

fun num_times :: "jsnum \<Rightarrow> jsnum \<Rightarrow> jsnum" where
  "num_times NaN b = NaN"
| "num_times a NaN = NaN"
| "num_times (Fin x) (Fin y) = Fin (x * y)"
| "num_times (Fin x) PosInf = (if x = 0 then NaN else if 0 < x then PosInf else NegInf)"
| "num_times (Fin x) NegInf = (if x = 0 then NaN else if 0 < x then NegInf else PosInf)"
| "num_times PosInf (Fin y) = (if y = 0 then NaN else if 0 < y then PosInf else NegInf)"
| "num_times NegInf (Fin y) = (if y = 0 then NaN else if 0 < y then NegInf else PosInf)"
| "num_times PosInf PosInf = PosInf"
| "num_times PosInf NegInf = NegInf"
| "num_times NegInf PosInf = NegInf"
| "num_times NegInf NegInf = PosInf"

text \<open>Division by the two-decimal precision, 100.\<close>

fun num_div100 :: "jsnum \<Rightarrow> jsnum" where
  "num_div100 (Fin x) = Fin (x / 100)"
| "num_div100 n = n"

text \<open>\<open>Math.round\<close>: the nearest integer, a half going up.\<close>

fun math_round :: "jsnum \<Rightarrow> jsnum" where
  "math_round (Fin x) = Fin (of_int \<lfloor>x + 1 / 2\<rfloor>)"
| "math_round n = n"

record currency_t =
  intValue :: jsnum
  amount :: jsnum  \<comment> \<open>the field \<open>value\<close> of the library's object\<close>

definition currency :: "jsnum \<Rightarrow> currency_t" where
  "currency v =
     (let cents = math_round (num_times v (Fin 100))
      in \<lparr>intValue = cents, amount = num_div100 cents\<rparr>)"

definition multiply :: "currency_t \<Rightarrow> jsnum \<Rightarrow> currency_t" where
  "multiply c n = currency (num_div100 (num_times (intValue c) n))"

subsection \<open>\<open>calculateTotalIncome\<close>\<close>

definition isNaN :: "jsnum \<Rightarrow> bool" where
  "isNaN n \<longleftrightarrow> n = NaN"

text \<open>
  The body of the \<open>try\<close> block: \<open>Inl\<close> is a thrown error. \<open>now\<close> is the time
  value of the current moment, which \<open>dayjs()\<close> reads when there is no end date.
\<close>

definition calculateTotalIncome_try ::
  "int \<Rightarrow> jsval \<Rightarrow> date option \<Rightarrow> date option \<Rightarrow> error + jsnum" where
  "calculateTotalIncome_try now annualIncome startDate endDate =
     (if js_typeof annualIncome \<noteq> TNumber \<or> isNaN (num_of annualIncome) then Inl InvalidIncome
      else case startDate of
        None \<Rightarrow> Inr (Fin 0)
      | Some sd \<Rightarrow>
          if \<not> truthy annualIncome \<or> num_le (num_of annualIncome) (Fin 0) then Inr (Fin 0)
          else
            let start = sd;
                end' = (case endDate of Some ed \<Rightarrow> ed | None \<Rightarrow> Date now)
            in if \<not> isValid start then Inl InvalidStartDate
               else if endDate \<noteq> None \<and> \<not> isValid end' then Inl InvalidEndDate
               else if isBefore end' start then Inr (Fin 0)
               else
                 let years = diff_year end' start;
                     total = multiply (currency (num_of annualIncome)) years
                 in Inr (amount total))"

text \<open>
  The \<open>catch\<close> block logs the error and returns 0 (the log is not part of the
  model).
\<close>

definition calculateTotalIncome :: "int \<Rightarrow> jsval \<Rightarrow> date option \<Rightarrow> date option \<Rightarrow> jsnum" where
  "calculateTotalIncome now annualIncome startDate endDate =
     (case calculateTotalIncome_try now annualIncome startDate endDate of
        Inl e \<Rightarrow> Fin 0
      | Inr result \<Rightarrow> result)"

section \<open>The form schema (\<open>utils/validation.ts\<close>)\<close>

subsection \<open>The validation library\<close>

text \<open>
  The schema is built from the combinators of the library \<open>zod\<close>, a package the
  module imports (version 3: the schema passes the options \<open>invalid_type_error\<close> and
  \<open>required_error\<close>). The combinators are modelled by what the library does. Parsing
  a value gives a status, the issues found and the output value. A value of the wrong
  type aborts the parse; a failed check makes it dirty and parsing goes on. An issue is
  a path and a message; the messages are the entries of \<open>ERROR_MESSAGES\<close>, and
  \<open>LibraryMessage\<close> stands for the messages the library words itself (a missing
  value, a wrong type, an invalid date).
\<close>

datatype parse_status = Valid | Dirty | Aborted

datatype message =
    EmployerNameRequired  \<comment> \<open>\<open>employerName.required\<close>\<close>
  | EmployerNameTooLong  \<comment> \<open>\<open>employerName.tooLong\<close>\<close>
  | CurrencyRequired  \<comment> \<open>\<open>currency.required\<close>\<close>
  | CurrencyInvalid  \<comment> \<open>\<open>currency.invalid\<close>\<close>
  | IncomeInvalid  \<comment> \<open>\<open>annualGrossIncome.invalid\<close>\<close>
  | IncomePositive  \<comment> \<open>\<open>annualGrossIncome.positive\<close>\<close>
  | IncomeRequired  \<comment> \<open>\<open>annualGrossIncome.required\<close>\<close>
  | IncomeTooLarge  \<comment> \<open>\<open>annualGrossIncome.tooLarge\<close>\<close>
  | StartDateRequired  \<comment> \<open>\<open>employmentStartDate.required\<close>\<close>
  | StartDateFuture  \<comment> \<open>\<open>employmentStartDate.future\<close>\<close>
  | EndDateBeforeStart  \<comment> \<open>\<open>employmentEndDate.beforeStart\<close>\<close>
  | NotesTooLong  \<comment> \<open>\<open>notes.tooLong\<close>\<close>
  | LibraryMessage

type_synonym issue = "string list \<times> message"

type_synonym parse_result = "parse_status \<times> issue list \<times> jsval"

type_synonym schema = "jsval \<Rightarrow> parse_result"

text \<open>
  \<open>z.string()\<close> with its checks. The checks run in the order in which the schema
  chains them, each on the string as the checks before it left it: \<open>trim\<close> is one of
  them and replaces the string by the trimmed one for the checks after it and for the
  output.
\<close>

datatype string_check =
    MinLength nat message
  | MaxLength nat message
  | Regex "jsstring \<Rightarrow> bool" message
  | Trim

fun run_string_checks :: "string_check list \<Rightarrow> jsstring \<Rightarrow> message list \<times> jsstring" where
  "run_string_checks [] s = ([], s)"
| "run_string_checks (MinLength n m # checks) s =
     (let (ms, out) = run_string_checks checks s
      in ((if length s < n then [m] else []) @ ms, out))"
| "run_string_checks (MaxLength n m # checks) s =
     (let (ms, out) = run_string_checks checks s
      in ((if length s > n then [m] else []) @ ms, out))"
| "run_string_checks (Regex p m # checks) s =
     (let (ms, out) = run_string_checks checks s
      in ((if \<not> p s then [m] else []) @ ms, out))"
| "run_string_checks (Trim # checks) s = run_string_checks checks (js_trim s)"

definition z_string :: "string_check list \<Rightarrow> schema" where
  "z_string checks v =
     (case v of
        JStr s \<Rightarrow>
          (let (ms, out) = run_string_checks checks s
           in (if ms = [] then Valid else Dirty, map (Pair []) ms, JStr out))
      | _ \<Rightarrow> (Aborted, [([], LibraryMessage)], v))"

text \<open>
  \<open>z.number({invalid_type_error})\<close> with its checks. \<open>NaN\<close> is not a number for
  the library. A lower bound is too small a value below it, or equal to it when the
  bound is exclusive; an upper bound likewise.
\<close>

datatype number_check =
    NumMin real bool message
  | NumMax real bool message

fun number_check_message :: "number_check \<Rightarrow> jsnum \<Rightarrow> message list" where
  "number_check_message (NumMin bound inclusive m) x =
     (if (if inclusive then num_lt x (Fin bound) else num_le x (Fin bound)) then [m] else [])"
| "number_check_message (NumMax bound inclusive m) x =
     (if (if inclusive then num_lt (Fin bound) x else num_le (Fin bound) x) then [m] else [])"

definition positive :: "message \<Rightarrow> number_check" where
  "positive m = NumMin 0 False m"

definition z_min :: "real \<Rightarrow> message \<Rightarrow> number_check" where
  "z_min bound m = NumMin bound True m"

definition z_max :: "real \<Rightarrow> message \<Rightarrow> number_check" where
  "z_max bound m = NumMax bound True m"

definition z_number :: "message \<Rightarrow> number_check list \<Rightarrow> schema" where
  "z_number invalid_type_error checks v =
     (if js_typeof v \<noteq> TNumber \<or> isNaN (num_of v) then
        (Aborted, [([], if v = JUndefined then LibraryMessage else invalid_type_error)], v)
      else
        (let ms = concat (map (\<lambda>c. number_check_message c (num_of v)) checks)
         in (if ms = [] then Valid else Dirty, map (Pair []) ms, v)))"

text \<open>
  \<open>z.date({required_error})\<close> (for a date without the option, the message of a
  missing value is the library's), \<open>optional\<close>, and \<open>refine\<close>: the refinement runs
  on the output of a parse that did not abort, and a check that fails adds its issue
  at its path.
\<close>

definition z_date :: "message \<Rightarrow> schema" where
  "z_date required_error v =
     (case v of
        JDate d \<Rightarrow>
          (if isNaN (valueOf d) then (Aborted, [([], LibraryMessage)], v) else (Valid, [], v))
      | JUndefined \<Rightarrow> (Aborted, [([], required_error)], v)
      | _ \<Rightarrow> (Aborted, [([], LibraryMessage)], v))"

definition z_optional :: "schema \<Rightarrow> schema" where
  "z_optional inner v = (if v = JUndefined then (Valid, [], JUndefined) else inner v)"

definition refine :: "(jsval \<Rightarrow> bool) \<Rightarrow> string list \<Rightarrow> message \<Rightarrow> schema \<Rightarrow> schema" where
  "refine check path m inner v =
     (case inner v of
        (Aborted, issues, out) \<Rightarrow> (Aborted, issues, out)
      | (status, issues, out) \<Rightarrow>
          if check out then (status, issues, out) else (Dirty, issues @ [(path, m)], out))"

text \<open>
  \<open>z.object(shape)\<close>: every field of the shape is parsed on the property of that
  name (\<open>undefined\<close> when there is none), the issues of a field are put under its
  name, and the parse is aborted when a field's is, dirty when a field's is dirty.
  Properties outside the shape are dropped from the output.
\<close>

definition get_prop :: "jsval \<Rightarrow> string \<Rightarrow> jsval" where
  "get_prop data key =
     (case map_of (own_props data) (str key) of Some v \<Rightarrow> v | None \<Rightarrow> JUndefined)"

definition merge_status :: "parse_status list \<Rightarrow> parse_status" where
  "merge_status sts =
     (if Aborted \<in> set sts then Aborted else if Dirty \<in> set sts then Dirty else Valid)"

definition prefix_path :: "string \<Rightarrow> issue \<Rightarrow> issue" where
  "prefix_path key i = (key # fst i, snd i)"

definition z_object :: "(string \<times> schema) list \<Rightarrow> schema" where
  "z_object shape v =
     (case v of
        JObj kvs \<Rightarrow>
          (let pairs = map (\<lambda>(key, field). (key, field (get_prop v key))) shape
           in (merge_status (map (\<lambda>(key, status, issues, out). status) pairs),
               concat (map (\<lambda>(key, status, issues, out). map (prefix_path key) issues) pairs),
               JObj (map (\<lambda>(key, status, issues, out). (str key, out))
                      (filter (\<lambda>(key, status, issues, out).
                                 out \<noteq> JUndefined \<or> str key \<in> set (map fst kvs)) pairs))))
      | _ \<Rightarrow> (Aborted, [([], LibraryMessage)], v))"

text \<open>\<open>safeParse\<close>: success with the output when the status is valid, the issues otherwise.\<close>

datatype safe_parse_result = Success jsval | Failure "issue list"

definition safeParse :: "schema \<Rightarrow> jsval \<Rightarrow> safe_parse_result" where
  "safeParse s v =
     (case s v of
        (Valid, issues, out) \<Rightarrow> Success out
      | (status, issues, out) \<Rightarrow> Failure issues)"

definition success :: "safe_parse_result \<Rightarrow> bool" where
  "success r = (case r of Success out \<Rightarrow> True | Failure issues \<Rightarrow> False)"

definition issues_of :: "safe_parse_result \<Rightarrow> issue list" where
  "issues_of r = (case r of Success out \<Rightarrow> [] | Failure issues \<Rightarrow> issues)"

subsection \<open>\<open>employmentSchema\<close>\<close>

definition MIN_EMPLOYER_NAME_LENGTH :: nat where
  "MIN_EMPLOYER_NAME_LENGTH = 1"

definition MAX_EMPLOYER_NAME_LENGTH :: nat where
  "MAX_EMPLOYER_NAME_LENGTH = 100"

definition MIN_ANNUAL_INCOME :: real where
  "MIN_ANNUAL_INCOME = 1"

definition MAX_ANNUAL_INCOME :: real where
  "MAX_ANNUAL_INCOME = 1000000000"

definition MAX_NOTES_LENGTH :: nat where
  "MAX_NOTES_LENGTH = 500"

definition employerName_schema :: schema where
  "employerName_schema =
     z_string [MinLength MIN_EMPLOYER_NAME_LENGTH EmployerNameRequired,
               MaxLength MAX_EMPLOYER_NAME_LENGTH EmployerNameTooLong,
               Trim]"

text \<open>The pattern \<open>/^[A-Z]{3}$/\<close>.\<close>

definition currency_pattern :: "jsstring \<Rightarrow> bool" where
  "currency_pattern s \<longleftrightarrow>
     length s = 3 \<and> list_all (\<lambda>c. cu CHR ''A'' \<le> c \<and> c \<le> cu CHR ''Z'') s"

definition currency_schema :: schema where
  "currency_schema =
     z_string [MinLength 1 CurrencyRequired, Regex currency_pattern CurrencyInvalid]"

definition annualGrossIncome_schema :: schema where
  "annualGrossIncome_schema =
     z_number IncomeInvalid
       [positive IncomePositive,
        z_min MIN_ANNUAL_INCOME IncomeRequired,
        z_max MAX_ANNUAL_INCOME IncomeTooLarge]"

text \<open>
  \<open>a <= b\<close> on two dates compares their time values. Where the schema evaluates it,
  both operands are dates.
\<close>

definition date_le :: "jsval \<Rightarrow> jsval \<Rightarrow> bool" where
  "date_le a b =
     (case (a, b) of
        (JDate x, JDate y) \<Rightarrow> num_le (valueOf x) (valueOf y)
      | _ \<Rightarrow> False)"

text \<open>\<open>now\<close> is the time value of \<open>new Date()\<close> when the refinement runs.\<close>

definition employmentStartDate_schema :: "int \<Rightarrow> schema" where
  "employmentStartDate_schema now =
     refine (\<lambda>date. date_le date (JDate (Date now))) [] StartDateFuture
       (z_date StartDateRequired)"

definition employmentEndDate_schema :: schema where
  "employmentEndDate_schema = z_optional (z_date LibraryMessage)"

definition notes_schema :: schema where
  "notes_schema = z_optional (z_string [MaxLength MAX_NOTES_LENGTH NotesTooLong])"

text \<open>The refinement over the two dates, and the schema.\<close>

definition end_after_start :: "jsval \<Rightarrow> bool" where
  "end_after_start data =
     (if truthy (get_prop data ''employmentEndDate'')
         \<and> date_le (get_prop data ''employmentEndDate'') (get_prop data ''employmentStartDate'')
      then False
      else True)"

definition employment_object :: "int \<Rightarrow> schema" where
  "employment_object now =
     z_object
       [(''employerName'', employerName_schema),
        (''currency'', currency_schema),
        (''annualGrossIncome'', annualGrossIncome_schema),
        (''employmentStartDate'', employmentStartDate_schema now),
        (''employmentEndDate'', employmentEndDate_schema),
        (''notes'', notes_schema)]"

definition employmentSchema :: "int \<Rightarrow> schema" where
  "employmentSchema now =
     refine end_after_start [''employmentEndDate''] EndDateBeforeStart (employment_object now)"

text \<open>
  A form whose fields other than the two dates have the types of the schema: the
  names are strings, the income is a number (not \<open>NaN\<close>), the notes are absent or a
  string.
\<close>

definition well_typed :: "jsval \<Rightarrow> bool" where
  "well_typed form \<longleftrightarrow>
     js_typeof (get_prop form ''employerName'') = TString
     \<and> js_typeof (get_prop form ''currency'') = TString
     \<and> js_typeof (get_prop form ''annualGrossIncome'') = TNumber
     \<and> \<not> isNaN (num_of (get_prop form ''annualGrossIncome''))
     \<and> (get_prop form ''notes'' = JUndefined \<or> js_typeof (get_prop form ''notes'') = TString)"

text \<open>
  The properties of \<open>validData\<close>, the valid form of the tests of the schema (its start
  date is 1 January 2023). \<open>{ ...validData, key: v }\<close> is \<open>AList.update\<close> on them.
\<close>

definition validData :: "(jsstring \<times> jsval) list" where
  "validData =
     [(str ''employerName'', JStr (str ''Acme Corporation'')),
      (str ''currency'', JStr (str ''USD'')),
      (str ''annualGrossIncome'', JNum (Fin 50000)),
      (str ''employmentStartDate'', JDate (Date 1672531200000))]"

section \<open>Properties of \<open>sanitizeString\<close>\<close>

text \<open>
  The six replacements run one after the other, each over the output of the one
  before. No entity holds a character that a later replacement looks for, so the chain
  is one pass that maps every character to its entity.
\<close>

lemma replace_all_concat:
  "replace_all c r (concat (map f s)) = concat (map (\<lambda>x. replace_all c r (f x)) s)"
  by (induction s) (simp_all add: replace_all_def)

lemma replace_chain_pointwise:
  "replace_all (cu CHR ''/'') (str ''&#x2F;'')
     (replace_all (cu CHR 0x27) (str ''&#x27;'')
       (replace_all (cu CHR 0x22) (str ''&quot;'')
         (replace_all (cu CHR ''>'') (str ''&gt;'')
           (replace_all (cu CHR ''<'') (str ''&lt;'')
             (if x = cu CHR ''&'' then str ''&amp;'' else [x]))))) = html_entity x"
  by (simp add: replace_all_def html_entity_def cu_def str_def)

lemma sanitizeString_single_pass: "sanitizeString (JStr s) = escape_html s"
proof -
  have "sanitizeString (JStr s) =
      concat (map (\<lambda>x. replace_all (cu CHR ''/'') (str ''&#x2F;'')
        (replace_all (cu CHR 0x27) (str ''&#x27;'')
          (replace_all (cu CHR 0x22) (str ''&quot;'')
            (replace_all (cu CHR ''>'') (str ''&gt;'')
              (replace_all (cu CHR ''<'') (str ''&lt;'')
                (if x = cu CHR ''&'' then str ''&amp;'' else [x])))))) s)"
    unfolding sanitizeString_def jsval.case
    by (subst replace_all_def [of "cu CHR ''&''"]) (simp only: replace_all_concat)
  then show ?thesis by (simp only: replace_chain_pointwise escape_html_def)
qed

lemma html_entity_unchanged: "\<not> escapable c \<Longrightarrow> html_entity c = [c]"
  by (simp add: escapable_def html_entity_def)










text \<open>
  Claim C1. For every string, \<open>sanitizeString\<close> (the six replacements in the order of
  the source, the ampersand first) replaces each of the characters
  \<open>& < > " ' /\<close> by its entity and leaves every other character as it is; for every
  input that is not a string the result is the empty string.
\<close>

theorem sanitizeString_escapes:
  "sanitizeString (JStr s) = concat (map html_entity s)
   \<and> (\<forall>c. \<not> escapable c \<longrightarrow> html_entity c = [c])
   \<and> (js_typeof v \<noteq> TString \<longrightarrow> sanitizeString v = [])"
proof -
  have "js_typeof v \<noteq> TString \<longrightarrow> sanitizeString v = []"
    by (cases v) (simp_all add: sanitizeString_def)
  then show ?thesis
    by (simp add: sanitizeString_single_pass escape_html_def html_entity_unchanged)
qed

theorem sanitizeString_escapes_witness:
  "sanitizeString (JStr (str ''O'N & <b>/\"''))
     = str ''O&#x27;N &amp; &lt;b&gt;&#x2F;&quot;''
   \<and> \<not> escapable (cu CHR ''N'') \<and> html_entity (cu CHR ''N'') = [cu CHR ''N'']
   \<and> js_typeof (JNum (Fin 123)) \<noteq> TString \<and> sanitizeString (JNum (Fin 123)) = []"
  using sanitizeString_escapes [of "str ''O'N & <b>/\"''" "JNum (Fin 123)"]
  by (simp add: html_entity_def escapable_def str_def cu_def)




section \<open>Properties of \<open>sanitizeFormData\<close>\<close>

lemma sanitizeFormData_invalid_iff:
  "sanitizeFormData data = Inl InvalidData \<longleftrightarrow> data = JNull \<or> js_typeof data \<noteq> TObject"
  by (cases data) (simp_all split: sum.splits)

lemma update_fresh: "k \<notin> set (map fst al) \<Longrightarrow> AList.update k v al = al @ [(k, v)]"
  by (induction al) auto

lemma assign_fresh:
  "key \<noteq> str ''__proto__'' \<Longrightarrow> key \<notin> set (map fst sanitized) \<Longrightarrow>
     assign key v sanitized = sanitized @ [(key, v)]"
  by (simp add: assign_def update_fresh)

lemma hasOwnProperty_own:
  "map_of (own_props data) (str ''hasOwnProperty'') = None \<Longrightarrow> (key, v) \<in> set (own_props data)
     \<Longrightarrow> hasOwnProperty data key = Inr True"
  by (force simp add: hasOwnProperty_def)

text \<open>
  On an object without the two names and with distinct names the loop ends without an
  error, and the result holds the sanitized value of every property, in order.
\<close>

lemma sanitize_ordinary:
  "js_typeof data = TObject \<Longrightarrow> data \<noteq> JNull \<Longrightarrow>
     map_of (own_props data) (str ''hasOwnProperty'') = None \<Longrightarrow>
     distinct (map fst (own_props data)) \<Longrightarrow>
     str ''__proto__'' \<notin> set (map fst (own_props data)) \<Longrightarrow>
     \<forall>(k, v) \<in> set (own_props data). ordinary v \<Longrightarrow>
     sanitizeFormData data = Inr (JObj (map (\<lambda>(k, v). (k, sanitized_value v)) (own_props data)))"
  and
  "map_of (own_props data) (str ''hasOwnProperty'') = None \<Longrightarrow>
     set props \<subseteq> set (own_props data) \<Longrightarrow>
     distinct (map fst sanitized @ map fst props) \<Longrightarrow>
     str ''__proto__'' \<notin> set (map fst props) \<Longrightarrow>
     \<forall>(k, v) \<in> set props. ordinary v \<Longrightarrow>
     sanitize_loop data props sanitized
       = Inr (sanitized @ map (\<lambda>(k, v). (k, sanitized_value v)) props)"
proof (induction data and data props sanitized rule: sanitizeFormData_sanitize_loop.induct)
  case (1 data)
  from "1.prems" have guard: "\<not> (\<not> truthy data \<or> js_typeof data \<noteq> TObject)"
    by (cases data) simp_all
  from "1.prems" have "sanitize_loop data (own_props data) []
      = Inr ([] @ map (\<lambda>(k, v). (k, sanitized_value v)) (own_props data))"
    by (intro "1.IH" guard) simp_all
  with guard show ?case by simp
next
  case (2 data sanitized)
  then show ?case by simp
next
  case (3 data key val rest sanitized)
  let ?g = "\<lambda>(k, v). (k, sanitized_value v)"
  from "3.prems" have own: "hasOwnProperty data key = Inr True"
    by (auto intro: hasOwnProperty_own)
  from "3.prems" have fresh: "key \<noteq> str ''__proto__''" "key \<notin> set (map fst sanitized)"
    by auto
  have asg: "assign key x sanitized = sanitized @ [(key, x)]" for x
    using fresh by (simp add: assign_fresh)
  from "3.prems" have p2: "set rest \<subseteq> set (own_props data)"
    and p4: "str ''__proto__'' \<notin> set (map fst rest)"
    and p5: "\<forall>(k, v) \<in> set rest. ordinary v"
    by auto
  from "3.prems" have p3: "distinct (map fst (assign key x sanitized) @ map fst rest)" for x
    by (auto simp add: asg)
  note p1 = "3.prems"(1)
  have finish: "sanitize_loop data ((key, val) # rest) sanitized
      = Inr (sanitized @ map ?g ((key, val) # rest))"
    if "sanitize_loop data ((key, val) # rest) sanitized
          = sanitize_loop data rest (assign key x sanitized)"
      and "sanitize_loop data rest (assign key x sanitized)
          = Inr (assign key x sanitized @ map ?g rest)"
      and "sanitized_value val = x" for x
    using that by (simp add: asg)
  show ?case
  proof (cases val)
    case JUndefined
    show ?thesis
      by (rule finish [of val])
         (use own JUndefined "3.IH"(5) [OF own refl _ _ _ p1 p2 p3 p4 p5] in simp_all)
  next
    case JNull
    show ?thesis
      by (rule finish [of val])
         (use own JNull "3.IH"(5) [OF own refl _ _ _ p1 p2 p3 p4 p5] in simp_all)
  next
    case (JBool b)
    show ?thesis
      by (rule finish [of val])
         (use own JBool "3.IH"(5) [OF own refl _ _ _ p1 p2 p3 p4 p5] in simp_all)
  next
    case (JNum n)
    show ?thesis
      by (rule finish [of val])
         (use own JNum "3.IH"(5) [OF own refl _ _ _ p1 p2 p3 p4 p5] in simp_all)
  next
    case (JStr s)
    show ?thesis
      by (rule finish [of "JStr (sanitizeString val)"])
         (use own JStr "3.IH"(1) [OF own refl _ p1 p2 p3 p4 p5] in
           \<open>simp_all add: sanitizeString_single_pass\<close>)
  next
    case (JDate d)
    show ?thesis
      by (rule finish [of val])
         (use own JDate "3.IH"(2) [OF own refl _ _ p1 p2 p3 p4 p5] in simp_all)
  next
    case (JArr xs)
    show ?thesis
      by (rule finish [of val])
         (use own JArr "3.IH"(5) [OF own refl _ _ _ p1 p2 p3 p4 p5] in simp_all)
  next
    case (JObj kvs)
    from "3.prems" JObj have ord: "ordinary (JObj kvs)"
      by simp
    have g1: "js_typeof val \<noteq> TString" and g2: "\<not> instanceof_Date val"
      and g3: "js_typeof val = TObject \<and> val \<noteq> JNull \<and> \<not> isArray val"
      using JObj by simp_all
    have inner: "sanitizeFormData val = Inr (JObj (map ?g (own_props val)))"
      by (rule "3.IH"(3) [OF own refl g1 g2 g3])
         (use ord JObj in \<open>auto simp add: map_of_eq_None_iff\<close>)
    show ?thesis
      by (rule finish [of "JObj (map ?g (own_props val))"])
         (use own JObj inner "3.IH"(4) [OF own refl g1 g2 g3 inner p1 p2 p3 p4 p5] in simp_all)
  qed
qed

lemma sanitizeFormData_ordinary:
  assumes "ordinary (JObj kvs)"
  shows "sanitizeFormData (JObj kvs) = Inr (sanitized_value (JObj kvs))"
proof -
  have "sanitizeFormData (JObj kvs)
      = Inr (JObj (map (\<lambda>(k, v). (k, sanitized_value v)) (own_props (JObj kvs))))"
    by (rule sanitize_ordinary(1)) (use assms in \<open>auto simp add: map_of_eq_None_iff\<close>)
  then show ?thesis by simp
qed

lemma sanitizeFormData_array_value:
  assumes "ordinary (JObj kvs)" and "(k, JArr xs) \<in> set kvs"
  shows "\<exists>out. sanitizeFormData (JObj kvs) = Inr (JObj out) \<and> (k, JArr xs) \<in> set out"
proof -
  from assms(2) have "(k, sanitized_value (JArr xs))
      \<in> set (map (\<lambda>(k, v). (k, sanitized_value v)) kvs)"
    by force
  with sanitizeFormData_ordinary [OF assms(1)] show ?thesis by simp
qed

lemma sanitizeFormData_shadowed:
  assumes "str ''hasOwnProperty'' \<in> set (map fst kvs)"
  shows "sanitizeFormData (JObj kvs) = Inl (FailedToSanitize NotAFunction)"
proof (cases kvs)
  case Nil
  with assms show ?thesis by simp
next
  case (Cons kv rest)
  from assms obtain f where "map_of kvs (str ''hasOwnProperty'') = Some f"
    by (cases "map_of kvs (str ''hasOwnProperty'')") (auto simp add: map_of_eq_None_iff)
  then have "hasOwnProperty (JObj kvs) (fst kv) = Inl NotAFunction"
    by (simp add: hasOwnProperty_def)
  with Cons show ?thesis
    by (cases kv) simp
qed

lemma sanitizeFormData_proto_dropped:
  "sanitizeFormData (JObj [(str ''__proto__'', JStr (str ''<b>''))]) = Inr (JObj [])"
  by (simp add: hasOwnProperty_def assign_def str_def cu_def)

text \<open>
  Claim C5 fails at the object \<open>{hasOwnProperty: "x"}\<close>: it is an object and not
  \<open>null\<close>, but its own property shadows the method the loop calls, the call throws,
  and the error is caught and thrown again.
\<close>

theorem sanitizeFormData_shadowed_hasOwnProperty:
  "js_typeof (JObj [(str ''hasOwnProperty'', JStr (str ''x''))]) = TObject
   \<and> JObj [(str ''hasOwnProperty'', JStr (str ''x''))] \<noteq> JNull
   \<and> sanitizeFormData (JObj [(str ''hasOwnProperty'', JStr (str ''x''))])
       = Inl (FailedToSanitize NotAFunction)"
  by (simp add: hasOwnProperty_def)

section \<open>Properties of \<open>calculateTotalIncome\<close>\<close>

lemma isBefore_Date: "isBefore (Date a) (Date b) \<longleftrightarrow> a < b"
  by (simp add: isBefore_def valueOf_def)

lemma calculateTotalIncome_before_start:
  assumes "isBefore (case e of Some ed \<Rightarrow> ed | None \<Rightarrow> Date now) sd"
  shows "calculateTotalIncome now a (Some sd) e = Fin 0"
  using assms
  by (simp add: calculateTotalIncome_def calculateTotalIncome_try_def Let_def)

text \<open>
  Claim C2. \<open>calculateTotalIncome\<close> returns 0 whenever the start date is \<open>null\<close>, or
  the income is at most 0, or the end date (the current moment when there is none) is
  strictly before the start date.
\<close>

theorem calculateTotalIncome_zero:
  "calculateTotalIncome now a None e = Fin 0
   \<and> (num_le n (Fin 0) \<longrightarrow> calculateTotalIncome now (JNum n) s e = Fin 0)
   \<and> (te < ts \<longrightarrow> calculateTotalIncome now a (Some (Date ts)) (Some (Date te)) = Fin 0)
   \<and> (now < ts \<longrightarrow> calculateTotalIncome now a (Some (Date ts)) None = Fin 0)"
proof -
  have start_null: "calculateTotalIncome now a None e = Fin 0"
    by (simp add: calculateTotalIncome_def calculateTotalIncome_try_def)
  have income: "num_le n (Fin 0) \<longrightarrow> calculateTotalIncome now (JNum n) s e = Fin 0"
    by (simp add: calculateTotalIncome_def calculateTotalIncome_try_def split: option.splits)
  have end_before:
    "te < ts \<longrightarrow> calculateTotalIncome now a (Some (Date ts)) (Some (Date te)) = Fin 0"
    by (simp add: calculateTotalIncome_before_start isBefore_Date)
  have now_before: "now < ts \<longrightarrow> calculateTotalIncome now a (Some (Date ts)) None = Fin 0"
    by (simp add: calculateTotalIncome_before_start isBefore_Date)
  from start_null income end_before now_before show ?thesis by blast
qed

theorem calculateTotalIncome_zero_witness:
  "calculateTotalIncome 1704067200000 (JNum (Fin 50000)) None (Some (Date 1704067200000)) = Fin 0
   \<and> num_le (Fin (- 50000)) (Fin 0)
   \<and> calculateTotalIncome 1704067200000 (JNum (Fin (- 50000))) (Some (Date 1672531200000)) None = Fin 0
   \<and> (1672531200000 :: int) < 1704067200000
   \<and> calculateTotalIncome 1704067200000 (JNum (Fin 50000)) (Some (Date 1704067200000))
        (Some (Date 1672531200000)) = Fin 0
   \<and> (1704067200000 :: int) < 1735689600000
   \<and> calculateTotalIncome 1704067200000 (JNum (Fin 50000)) (Some (Date 1735689600000)) None = Fin 0"
  using
    calculateTotalIncome_zero [where now = 1704067200000 and a = "JNum (Fin 50000)"
      and e = "Some (Date 1704067200000)" and n = "Fin (- 50000)"
      and s = "Some (Date 1672531200000)" and te = 1672531200000 and ts = 1704067200000]
    calculateTotalIncome_zero [where now = 1704067200000 and a = "JNum (Fin 50000)"
      and e = None and n = "Fin (- 50000)"
      and s = "Some (Date 1672531200000)" and te = 1672531200000 and ts = 1735689600000]
  by simp

text \<open>
  The errors of the \<open>try\<close> block: the income is not a number or is \<open>NaN\<close>, or the
  start date or the end date is an invalid date. The libraries throw nothing on numbers
  and dates.
\<close>

lemma calculateTotalIncome_throws_iff:
  "(\<exists>err. calculateTotalIncome_try now a s e = Inl err) \<longleftrightarrow>
     js_typeof a \<noteq> TNumber \<or> num_of a = NaN
     \<or> (s \<noteq> None \<and> truthy a \<and> \<not> num_le (num_of a) (Fin 0)
         \<and> (s = Some InvalidDate \<or> e = Some InvalidDate))"
  by (auto simp add: calculateTotalIncome_try_def Let_def isNaN_def isValid_def
        split: option.splits)

lemma amount_not_finite:
  "n \<in> {NaN, PosInf, NegInf} \<Longrightarrow> amount (currency n) \<in> {NaN, PosInf, NegInf}"
  by (auto simp add: currency_def)

lemma num_times_PosInf: "num_times PosInf y \<in> {NaN, PosInf, NegInf}"
  by (cases y) auto

lemma calculateTotalIncome_PosInf:
  assumes "\<not> isBefore (case e of Some ed \<Rightarrow> ed | None \<Rightarrow> Date now) (Date ts)"
    and "e \<noteq> Some InvalidDate"
  shows "calculateTotalIncome now (JNum PosInf) (Some (Date ts)) e \<in> {NaN, PosInf, NegInf}"
proof -
  define end' where "end' = (case e of Some ed \<Rightarrow> ed | None \<Rightarrow> Date now)"
  have "num_times PosInf (diff_year end' (Date ts)) \<in> {NaN, PosInf, NegInf}"
    by (rule num_times_PosInf)
  then have "num_div100 (num_times PosInf (diff_year end' (Date ts))) \<in> {NaN, PosInf, NegInf}"
    by auto
  then have "amount (currency (num_div100 (num_times PosInf (diff_year end' (Date ts)))))
               \<in> {NaN, PosInf, NegInf}"
    by (rule amount_not_finite)
  moreover have "calculateTotalIncome now (JNum PosInf) (Some (Date ts)) e
      = amount (currency (num_div100 (num_times PosInf (diff_year end' (Date ts)))))"
    using assms
    by (auto simp add: calculateTotalIncome_def calculateTotalIncome_try_def Let_def isNaN_def
          isValid_def multiply_def currency_def end'_def split: option.splits)
  ultimately show ?thesis by simp
qed

text \<open>
  Claim C3, as stated, fails for positive infinity: the guard tests \<open>typeof\<close> and
  \<open>isNaN\<close> only, \<open>Infinity <= 0\<close> is false, and the product with one year is
  \<open>Infinity\<close>, not 0.
\<close>

theorem calculateTotalIncome_infinity_counterexample:
  "calculateTotalIncome 1704067200000 (JNum PosInf) (Some (Date 1672531200000))
     (Some (Date 1704067200000)) = PosInf
   \<and> calculateTotalIncome 1704067200000 (JNum PosInf) (Some (Date 1672531200000))
     (Some (Date 1704067200000)) \<noteq> Fin 0"
  by code_simp

text \<open>
  Claim C3, amended. For an income that is \<open>NaN\<close> or negative infinity
  \<open>calculateTotalIncome\<close> returns 0. Positive infinity is not treated as invalid:
  with a valid start date and an end (the current moment when there is none) that is
  not before it, the result is not 0. Every error thrown during the computation is
  caught, and the function returns 0.
\<close>

theorem calculateTotalIncome_invalid_income:
  "calculateTotalIncome now (JNum NaN) s e = Fin 0
   \<and> calculateTotalIncome now (JNum NegInf) s e = Fin 0
   \<and> (calculateTotalIncome_try now a s e = Inl err \<longrightarrow> calculateTotalIncome now a s e = Fin 0)
   \<and> (\<not> isBefore (case e of Some ed \<Rightarrow> ed | None \<Rightarrow> Date now) (Date ts)
        \<and> e \<noteq> Some InvalidDate
        \<longrightarrow> calculateTotalIncome now (JNum PosInf) (Some (Date ts)) e \<noteq> Fin 0)"
proof -
  have nan: "calculateTotalIncome now (JNum NaN) s e = Fin 0"
    by (simp add: calculateTotalIncome_def calculateTotalIncome_try_def isNaN_def)
  have neginf: "calculateTotalIncome now (JNum NegInf) s e = Fin 0"
    by (simp add: calculateTotalIncome_def calculateTotalIncome_try_def isNaN_def
          split: option.splits)
  have caught:
    "calculateTotalIncome_try now a s e = Inl err \<longrightarrow> calculateTotalIncome now a s e = Fin 0"
    by (simp add: calculateTotalIncome_def)
  have posinf: "\<not> isBefore (case e of Some ed \<Rightarrow> ed | None \<Rightarrow> Date now) (Date ts)
        \<and> e \<noteq> Some InvalidDate
        \<longrightarrow> calculateTotalIncome now (JNum PosInf) (Some (Date ts)) e \<noteq> Fin 0"
    using calculateTotalIncome_PosInf [where e = e and now = now and ts = ts] by auto
  from nan neginf caught posinf show ?thesis by blast
qed

theorem calculateTotalIncome_invalid_income_witness:
  "calculateTotalIncome_try 1704067200000 (JNum (Fin 50000)) (Some InvalidDate) None
     = Inl InvalidStartDate
   \<and> calculateTotalIncome 1704067200000 (JNum (Fin 50000)) (Some InvalidDate) None = Fin 0
   \<and> \<not> isBefore (Date 1704067200000) (Date 1672531200000)
   \<and> Some (Date 1704067200000) \<noteq> Some InvalidDate
   \<and> calculateTotalIncome 1704067200000 (JNum PosInf) (Some (Date 1672531200000))
        (Some (Date 1704067200000)) \<noteq> Fin 0"
proof -
  have thrown: "calculateTotalIncome_try 1704067200000 (JNum (Fin 50000)) (Some InvalidDate) None
     = Inl InvalidStartDate"
    by (simp add: calculateTotalIncome_try_def isNaN_def isValid_def)
  have later: "\<not> isBefore (Date 1704067200000) (Date 1672531200000)"
    by (simp add: isBefore_Date)
  from thrown later
    calculateTotalIncome_invalid_income [where now = 1704067200000 and s = "Some InvalidDate"
      and e = None and a = "JNum (Fin 50000)" and err = InvalidStartDate
      and ts = 1672531200000]
    calculateTotalIncome_invalid_income [where now = 1704067200000
      and s = "Some (Date 1704067200000)" and e = "Some (Date 1704067200000)"
      and a = "JNum (Fin 50000)" and err = InvalidStartDate and ts = 1672531200000]
  show ?thesis by simp
qed

text \<open>
  An amount of whole cents times one year is the amount itself.
\<close>

lemma multiply_one_year:
  assumes "x * 100 = of_int k"
  shows "amount (multiply (currency (Fin x)) (Fin 1)) = Fin x"
proof -
  from assms have x: "x = of_int k / 100" by simp
  have "\<lfloor>(of_int k :: real) + 1 / 2\<rfloor> = k" by linarith
  then show ?thesis
    by (simp add: multiply_def currency_def x)
qed

text \<open>
  Past its guards the function returns the product, in the arithmetic on cents, of the
  income and the difference in years between the end (the current moment when there is
  no end date) and the start.
\<close>

lemma calculateTotalIncome_product:
  assumes "0 < x"
    and "\<not> isBefore (case e of Some ed \<Rightarrow> ed | None \<Rightarrow> Date now) (Date s)"
    and "e \<noteq> Some InvalidDate"
  shows "calculateTotalIncome now (JNum (Fin x)) (Some (Date s)) e
      = amount (multiply (currency (Fin x))
          (diff_year (case e of Some ed \<Rightarrow> ed | None \<Rightarrow> Date now) (Date s)))"
  using assms
  by (auto simp add: calculateTotalIncome_def calculateTotalIncome_try_def Let_def isNaN_def
        isValid_def split: option.splits)

text \<open>
  Claim C8. For every positive income and every start and end date with the end not
  before the start, \<open>calculateTotalIncome\<close> is the income times the difference in
  years, in the arithmetic on cents (with the current moment for a missing end date);
  whenever that difference is one year and the income is a whole number of cents, the
  result is the income exactly. \<open>calculateTotalIncome(50000, 2023-01-01, 2024-01-01)\<close>
  is exactly 50000 (the dates are the time values of midnight UTC). The difference
  in years follows the calendar: from a date to the same date of the next year it is 1,
  over 365 days (2023, and 15 February 2023 to 15 February 2024) as over 366 days
  (2024), and from each 1 January of 2020 to 2028 to the next; over the half year from
  1 January to 1 July 2023 it is one half, and 60000 gives 30000.
\<close>

theorem calculateTotalIncome_one_year:
  "(0 < x \<and> s \<le> e \<longrightarrow>
      calculateTotalIncome now (JNum (Fin x)) (Some (Date s)) (Some (Date e))
        = amount (multiply (currency (Fin x)) (diff_year (Date e) (Date s))))
   \<and> (0 < x \<and> s \<le> now \<longrightarrow>
      calculateTotalIncome now (JNum (Fin x)) (Some (Date s)) None
        = amount (multiply (currency (Fin x)) (diff_year (Date now) (Date s))))
   \<and> (0 < x \<and> x * 100 = of_int k \<and> s \<le> e \<and> diff_year (Date e) (Date s) = Fin 1 \<longrightarrow>
      calculateTotalIncome now (JNum (Fin x)) (Some (Date s)) (Some (Date e)) = Fin x)
   \<and> calculateTotalIncome now (JNum (Fin 50000)) (Some (Date 1672531200000))
        (Some (Date 1704067200000)) = Fin 50000
   \<and> diff_year (Date 1704067200000) (Date 1672531200000) = Fin 1
   \<and> diff_year (Date 1735689600000) (Date 1704067200000) = Fin 1
   \<and> diff_year (Date 1707955200000) (Date 1676419200000) = Fin 1
   \<and> amount (multiply (currency (Fin 50000)) (Fin 1)) = Fin 50000
   \<and> list_all (\<lambda>y. diff_year (Date (days_from_civil (y + 1) 0 1 * 86400000))
                       (Date (days_from_civil y 0 1 * 86400000)) = Fin 1) [2020..2028]
   \<and> diff_year (Date 1688169600000) (Date 1672531200000) = Fin (1 / 2)
   \<and> calculateTotalIncome now (JNum (Fin 60000)) (Some (Date 1672531200000))
        (Some (Date 1688169600000)) = Fin 30000"
proof -
  have given: "0 < x \<and> s \<le> e \<longrightarrow>
      calculateTotalIncome now (JNum (Fin x)) (Some (Date s)) (Some (Date e))
        = amount (multiply (currency (Fin x)) (diff_year (Date e) (Date s)))"
    using calculateTotalIncome_product [where x = x and e = "Some (Date e)" and now = now
        and s = s]
    by (simp add: isBefore_Date)
  have current: "0 < x \<and> s \<le> now \<longrightarrow>
      calculateTotalIncome now (JNum (Fin x)) (Some (Date s)) None
        = amount (multiply (currency (Fin x)) (diff_year (Date now) (Date s)))"
    using calculateTotalIncome_product [where x = x and e = None and now = now and s = s]
    by (simp add: isBefore_Date)
  have whole: "0 < x \<and> x * 100 = of_int k \<and> s \<le> e \<and> diff_year (Date e) (Date s) = Fin 1 \<longrightarrow>
      calculateTotalIncome now (JNum (Fin x)) (Some (Date s)) (Some (Date e)) = Fin x"
    using given multiply_one_year [of x k] by auto
  have instances:
    "calculateTotalIncome now (JNum (Fin 50000)) (Some (Date 1672531200000))
        (Some (Date 1704067200000)) = Fin 50000
     \<and> diff_year (Date 1704067200000) (Date 1672531200000) = Fin 1
     \<and> diff_year (Date 1735689600000) (Date 1704067200000) = Fin 1
     \<and> diff_year (Date 1707955200000) (Date 1676419200000) = Fin 1
     \<and> amount (multiply (currency (Fin 50000)) (Fin 1)) = Fin 50000"
    by code_simp
  have years:
    "list_all (\<lambda>y. diff_year (Date (days_from_civil (y + 1) 0 1 * 86400000))
                       (Date (days_from_civil y 0 1 * 86400000)) = Fin 1) [2020..2028]"
    by code_simp
  have half:
    "diff_year (Date 1688169600000) (Date 1672531200000) = Fin (1 / 2)
     \<and> calculateTotalIncome now (JNum (Fin 60000)) (Some (Date 1672531200000))
        (Some (Date 1688169600000)) = Fin 30000"
    by code_simp
  from given current whole instances years half show ?thesis
    by blast
qed

theorem calculateTotalIncome_one_year_witness:
  "(0 :: real) < 1234.56 \<and> (1234.56 :: real) * 100 = of_int 123456
   \<and> (1672531200000 :: int) \<le> 1704067200000
   \<and> diff_year (Date 1704067200000) (Date 1672531200000) = Fin 1
   \<and> calculateTotalIncome 1704067200000 (JNum (Fin 1234.56)) (Some (Date 1672531200000))
        (Some (Date 1704067200000))
      = amount (multiply (currency (Fin 1234.56))
          (diff_year (Date 1704067200000) (Date 1672531200000)))
   \<and> calculateTotalIncome 1704067200000 (JNum (Fin 1234.56)) (Some (Date 1672531200000)) None
      = amount (multiply (currency (Fin 1234.56))
          (diff_year (Date 1704067200000) (Date 1672531200000)))
   \<and> calculateTotalIncome 1704067200000 (JNum (Fin 1234.56)) (Some (Date 1672531200000))
        (Some (Date 1704067200000)) = Fin 1234.56"
proof -
  have pos: "(0 :: real) < 1234.56" and cents: "(1234.56 :: real) * 100 = of_int 123456"
    and le: "(1672531200000 :: int) \<le> 1704067200000"
    by simp_all
  have year: "diff_year (Date 1704067200000) (Date 1672531200000) = Fin 1"
    by code_simp
  from pos cents le year
    calculateTotalIncome_one_year [where x = "1234.56" and k = 123456 and s = 1672531200000
      and e = 1704067200000 and now = 1704067200000]
  show ?thesis by blast
qed

section \<open>Properties of the income bounds\<close>

lemma annualGrossIncome_schema_valid:
  "fst (annualGrossIncome_schema v) = Valid
     \<longleftrightarrow> (\<exists>x. v = JNum (Fin x) \<and> 1 \<le> x \<and> x \<le> 1000000000)"
proof (cases v)
  case (JNum n)
  then show ?thesis
    by (cases n)
       (auto simp add: annualGrossIncome_schema_def z_number_def positive_def z_min_def
          z_max_def isNaN_def Let_def MIN_ANNUAL_INCOME_def MAX_ANNUAL_INCOME_def)
qed (simp_all add: annualGrossIncome_schema_def z_number_def)

lemma validateIncome_iff:
  "validateIncome n \<longleftrightarrow> (\<exists>x. n = Fin x \<and> 0 \<le> x \<and> x \<le> 1000000000)"
  by (cases n) (simp_all add: validateIncome_def)

lemma income_checks_differ:
  "validateIncome n \<noteq> (fst (annualGrossIncome_schema (JNum n)) = Valid)
     \<longleftrightarrow> (\<exists>x. n = Fin x \<and> 0 \<le> x \<and> x < 1)"
  unfolding annualGrossIncome_schema_valid validateIncome_iff by (cases n) auto

text \<open>
  Claim C4. The schema of the form accepts \<open>annualGrossIncome\<close> exactly when it is a
  number between 1 and 1,000,000,000, both included; \<open>validateIncome\<close> is true
  exactly from 0 to 1,000,000,000, both included; the two differ exactly on the numbers
  from 0 (included) to 1 (excluded).
\<close>

theorem income_bounds:
  "(fst (annualGrossIncome_schema v) = Valid
      \<longleftrightarrow> (\<exists>x. v = JNum (Fin x) \<and> 1 \<le> x \<and> x \<le> 1000000000))
   \<and> (validateIncome n \<longleftrightarrow> (\<exists>x. n = Fin x \<and> 0 \<le> x \<and> x \<le> 1000000000))
   \<and> (validateIncome n \<noteq> (fst (annualGrossIncome_schema (JNum n)) = Valid)
      \<longleftrightarrow> (\<exists>x. n = Fin x \<and> 0 \<le> x \<and> x < 1))"
  using annualGrossIncome_schema_valid [of v] validateIncome_iff [of n]
    income_checks_differ [of n]
  by blast

section \<open>Properties of the employer name\<close>

lemma js_trim_whitespace: "list_all is_whitespace s \<Longrightarrow> js_trim s = []"
  by (auto simp add: js_trim_def list_all_iff dest: set_dropWhileD)

lemma whitespace_name_char: "list_all is_whitespace s \<Longrightarrow> list_all name_char s"
  by (simp add: list_all_iff name_char_def)

text \<open>
  Claim C10, as stated, fails at the name that is one space: the validator accepts it,
  and so does the rule of the form, whose length checks come before \<open>trim\<close> in the
  chain and see the untrimmed string. A form with that name and valid other fields
  parses with success.
\<close>

theorem whitespace_name_counterexample:
  "validateEmployerName (str '' '')
   \<and> employerName_schema (JStr (str '' '')) = (Valid, [], JStr [])
   \<and> success (safeParse (employmentSchema 1704067200000)
        (JObj [(str ''employerName'', JStr (str '' '')),
               (str ''currency'', JStr (str ''USD'')),
               (str ''annualGrossIncome'', JNum (Fin 50000)),
               (str ''employmentStartDate'', JDate (Date 1672531200000))]))"
  by code_simp

text \<open>
  Claim C10, amended. \<open>validateEmployerName\<close> does not trim: it is true of every
  string of 1 to 100 characters that are all white space. The rule of the form checks
  the length, at least 1 and at most 100, of the untrimmed string and trims afterwards:
  it accepts those names as well, and its output is the empty string.
\<close>

theorem whitespace_name_accepted:
  assumes "s \<noteq> []" and "length s \<le> 100" and "list_all is_whitespace s"
  shows "validateEmployerName s \<and> employerName_schema (JStr s) = (Valid, [], JStr [])"
  using assms
  by (auto simp add: validateEmployerName_def validPattern_test_def whitespace_name_char
        employerName_schema_def z_string_def js_trim_whitespace
        MIN_EMPLOYER_NAME_LENGTH_def MAX_EMPLOYER_NAME_LENGTH_def)

theorem whitespace_name_accepted_witness:
  "str [CHR 0x09, CHR '' ''] \<noteq> []
   \<and> length (str [CHR 0x09, CHR '' '']) \<le> 100
   \<and> list_all is_whitespace (str [CHR 0x09, CHR '' ''])
   \<and> validateEmployerName (str [CHR 0x09, CHR '' ''])
   \<and> employerName_schema (JStr (str [CHR 0x09, CHR '' ''])) = (Valid, [], JStr [])"
proof -
  have a: "str [CHR 0x09, CHR '' ''] \<noteq> []"
    by (simp add: str_def)
  have b: "length (str [CHR 0x09, CHR '' '']) \<le> 100"
    by (simp add: str_def)
  have c: "list_all is_whitespace (str [CHR 0x09, CHR '' ''])"
    by (simp add: str_def cu_def is_whitespace_def)
  from a b c whitespace_name_accepted [OF a b c] show ?thesis
    by simp
qed

section \<open>Properties of the date rules of the schema\<close>

lemma employment_object_unfold:
  "employment_object now (JObj kvs) =
     (merge_status
        [fst (employerName_schema (get_prop (JObj kvs) ''employerName'')),
         fst (currency_schema (get_prop (JObj kvs) ''currency'')),
         fst (annualGrossIncome_schema (get_prop (JObj kvs) ''annualGrossIncome'')),
         fst (employmentStartDate_schema now (get_prop (JObj kvs) ''employmentStartDate'')),
         fst (employmentEndDate_schema (get_prop (JObj kvs) ''employmentEndDate'')),
         fst (notes_schema (get_prop (JObj kvs) ''notes''))],
      fst (snd (employment_object now (JObj kvs))),
      snd (snd (employment_object now (JObj kvs))))"
  by (simp add: employment_object_def z_object_def case_prod_beta)

lemma employment_object_issues:
  "fst (snd (employment_object now (JObj kvs))) =
     map (prefix_path ''employerName'')
       (fst (snd (employerName_schema (get_prop (JObj kvs) ''employerName''))))
     @ map (prefix_path ''currency'')
         (fst (snd (currency_schema (get_prop (JObj kvs) ''currency''))))
     @ map (prefix_path ''annualGrossIncome'')
         (fst (snd (annualGrossIncome_schema (get_prop (JObj kvs) ''annualGrossIncome''))))
     @ map (prefix_path ''employmentStartDate'')
         (fst (snd (employmentStartDate_schema now (get_prop (JObj kvs) ''employmentStartDate''))))
     @ map (prefix_path ''employmentEndDate'')
         (fst (snd (employmentEndDate_schema (get_prop (JObj kvs) ''employmentEndDate''))))
     @ map (prefix_path ''notes'') (fst (snd (notes_schema (get_prop (JObj kvs) ''notes''))))"
  by (simp add: employment_object_def z_object_def case_prod_beta)

lemma start_out: "snd (snd (employmentStartDate_schema now v)) = v"
  by (cases v)
     (auto simp add: employmentStartDate_schema_def refine_def z_date_def split: if_splits)

lemma end_out: "snd (snd (employmentEndDate_schema v)) = v"
  by (cases v)
     (auto simp add: employmentEndDate_schema_def z_optional_def z_date_def split: if_splits)

lemma employment_object_out_start:
  "get_prop (snd (snd (employment_object now (JObj kvs)))) ''employmentStartDate''
     = get_prop (JObj kvs) ''employmentStartDate''"
  apply (simp add: employment_object_def z_object_def case_prod_beta start_out)
  apply (simp add: get_prop_def str_def cu_def)
  done

lemma employment_object_out_end:
  "get_prop (snd (snd (employment_object now (JObj kvs)))) ''employmentEndDate''
     = get_prop (JObj kvs) ''employmentEndDate''"
  apply (simp add: employment_object_def z_object_def case_prod_beta end_out)
  apply (simp add: get_prop_def str_def cu_def)
  done

lemma end_after_start_out:
  "end_after_start (snd (snd (employment_object now (JObj kvs)))) = end_after_start (JObj kvs)"
  by (simp add: end_after_start_def employment_object_out_start employment_object_out_end)

lemma employmentSchema_unfold:
  "employmentSchema now v =
     (if fst (employment_object now v) = Aborted \<or> end_after_start (snd (snd (employment_object now v)))
      then employment_object now v
      else (Dirty,
            fst (snd (employment_object now v)) @ [([''employmentEndDate''], EndDateBeforeStart)],
            snd (snd (employment_object now v))))"
  by (simp add: employmentSchema_def refine_def split: prod.splits parse_status.splits)

lemma safeParse_success:
  "success (safeParse (employmentSchema now) (JObj kvs)) \<longleftrightarrow>
     fst (employment_object now (JObj kvs)) = Valid \<and> end_after_start (JObj kvs)"
  by (auto simp add: success_def safeParse_def employmentSchema_unfold end_after_start_out
        split: prod.splits parse_status.splits)

lemma safeParse_issues:
  "\<not> success (safeParse (employmentSchema now) (JObj kvs)) \<Longrightarrow>
   issues_of (safeParse (employmentSchema now) (JObj kvs)) =
     fst (snd (employment_object now (JObj kvs)))
     @ (if fst (employment_object now (JObj kvs)) \<noteq> Aborted \<and> \<not> end_after_start (JObj kvs)
        then [([''employmentEndDate''], EndDateBeforeStart)] else [])"
  by (auto simp add: success_def issues_of_def safeParse_def employmentSchema_unfold end_after_start_out
        split: prod.splits parse_status.splits)

lemma success_no_issues:
  "success r \<Longrightarrow> issues_of r = []"
  by (cases r) (simp_all add: success_def issues_of_def)

lemma start_future:
  "now < s \<Longrightarrow> employmentStartDate_schema now (JDate (Date s))
      = (Dirty, [([], StartDateFuture)], JDate (Date s))"
  by (simp add: employmentStartDate_schema_def refine_def z_date_def date_le_def valueOf_def isNaN_def)

lemma start_not_future:
  "s \<le> now \<Longrightarrow> employmentStartDate_schema now (JDate (Date s)) = (Valid, [], JDate (Date s))"
  by (simp add: employmentStartDate_schema_def refine_def z_date_def date_le_def valueOf_def isNaN_def)

lemma end_date_valid:
  "employmentEndDate_schema (JDate (Date e)) = (Valid, [], JDate (Date e))"
  by (simp add: employmentEndDate_schema_def z_optional_def z_date_def valueOf_def isNaN_def)

lemma merge_status_Valid: "merge_status sts = Valid \<longleftrightarrow> (\<forall>st \<in> set sts. st = Valid)"
proof -
  have "st = Valid \<or> st = Dirty \<or> st = Aborted" for st :: parse_status by (cases st) simp_all
  then show ?thesis unfolding merge_status_def by (auto; metis)
qed

lemma merge_status_Aborted: "merge_status sts = Aborted \<longleftrightarrow> Aborted \<in> set sts"
  by (simp add: merge_status_def)

lemma employerName_aborted: "fst (employerName_schema v) = Aborted \<longleftrightarrow> js_typeof v \<noteq> TString"
  by (cases v) (auto simp add: employerName_schema_def z_string_def split: prod.splits)

lemma currency_aborted: "fst (currency_schema v) = Aborted \<longleftrightarrow> js_typeof v \<noteq> TString"
  by (cases v) (auto simp add: currency_schema_def z_string_def split: prod.splits)

lemma income_aborted:
  "fst (annualGrossIncome_schema v) = Aborted \<longleftrightarrow> js_typeof v \<noteq> TNumber \<or> isNaN (num_of v)"
  by (auto simp add: annualGrossIncome_schema_def z_number_def Let_def)

lemma notes_aborted:
  "fst (notes_schema v) = Aborted \<longleftrightarrow> v \<noteq> JUndefined \<and> js_typeof v \<noteq> TString"
  by (cases v) (auto simp add: notes_schema_def z_optional_def z_string_def split: prod.splits)

lemma employerName_messages:
  "(p, m) \<in> set (fst (snd (employerName_schema v))) \<Longrightarrow>
     p = [] \<and> m \<in> {EmployerNameRequired, EmployerNameTooLong, LibraryMessage}"
  by (cases v) (auto simp add: employerName_schema_def z_string_def split: if_splits)

lemma currency_messages:
  "(p, m) \<in> set (fst (snd (currency_schema v))) \<Longrightarrow>
     p = [] \<and> m \<in> {CurrencyRequired, CurrencyInvalid, LibraryMessage}"
  by (cases v) (auto simp add: currency_schema_def z_string_def split: if_splits)

lemma income_messages:
  "(p, m) \<in> set (fst (snd (annualGrossIncome_schema v))) \<Longrightarrow>
     p = [] \<and> m \<in> {IncomeInvalid, IncomePositive, IncomeRequired, IncomeTooLarge, LibraryMessage}"
  by (auto simp add: annualGrossIncome_schema_def z_number_def Let_def positive_def z_min_def z_max_def
        split: if_splits)

lemma start_messages:
  "(p, m) \<in> set (fst (snd (employmentStartDate_schema now v))) \<Longrightarrow>
     p = [] \<and> m \<in> {StartDateRequired, StartDateFuture, LibraryMessage}"
  by (cases v) (auto simp add: employmentStartDate_schema_def refine_def z_date_def split: if_splits)

lemma end_messages:
  "(p, m) \<in> set (fst (snd (employmentEndDate_schema v))) \<Longrightarrow> p = [] \<and> m = LibraryMessage"
  by (cases v) (auto simp add: employmentEndDate_schema_def z_optional_def z_date_def split: if_splits)

lemma notes_messages:
  "(p, m) \<in> set (fst (snd (notes_schema v))) \<Longrightarrow> p = [] \<and> m \<in> {NotesTooLong, LibraryMessage}"
  by (cases v) (auto simp add: notes_schema_def z_optional_def z_string_def split: if_splits)

lemma employment_object_issue_iff:
  "(p, m) \<in> set (fst (snd (employment_object now (JObj kvs)))) \<longleftrightarrow>
     (\<exists>q. p = ''employerName'' # q
          \<and> (q, m) \<in> set (fst (snd (employerName_schema (get_prop (JObj kvs) ''employerName'')))))
     \<or> (\<exists>q. p = ''currency'' # q
          \<and> (q, m) \<in> set (fst (snd (currency_schema (get_prop (JObj kvs) ''currency'')))))
     \<or> (\<exists>q. p = ''annualGrossIncome'' # q
          \<and> (q, m) \<in> set (fst (snd (annualGrossIncome_schema (get_prop (JObj kvs) ''annualGrossIncome'')))))
     \<or> (\<exists>q. p = ''employmentStartDate'' # q
          \<and> (q, m) \<in> set (fst (snd (employmentStartDate_schema now
                                          (get_prop (JObj kvs) ''employmentStartDate'')))))
     \<or> (\<exists>q. p = ''employmentEndDate'' # q
          \<and> (q, m) \<in> set (fst (snd (employmentEndDate_schema (get_prop (JObj kvs) ''employmentEndDate'')))))
     \<or> (\<exists>q. p = ''notes'' # q
          \<and> (q, m) \<in> set (fst (snd (notes_schema (get_prop (JObj kvs) ''notes'')))))"
  unfolding employment_object_issues set_append set_map Un_iff image_iff prefix_path_def
  by (simp only: prod.inject) force

lemma end_after_start_dates:
  assumes "get_prop (JObj kvs) ''employmentStartDate'' = JDate (Date s)"
    and "get_prop (JObj kvs) ''employmentEndDate'' = JDate (Date e)"
  shows "end_after_start (JObj kvs) \<longleftrightarrow> s < e"
  using assms by (auto simp add: end_after_start_def date_le_def valueOf_def)

lemma employment_object_not_aborted:
  assumes "well_typed (JObj kvs)"
    and "get_prop (JObj kvs) ''employmentStartDate'' = JDate (Date s)"
    and "get_prop (JObj kvs) ''employmentEndDate'' = JDate (Date e)"
  shows "fst (employment_object now (JObj kvs)) \<noteq> Aborted"
proof -
  have "fst (employmentStartDate_schema now (JDate (Date s))) \<noteq> Aborted"
    by (cases "now < s") (simp_all add: start_future start_not_future)
  with assms show ?thesis
    by (subst employment_object_unfold)
       (simp add: merge_status_Aborted employerName_aborted currency_aborted income_aborted
          notes_aborted end_date_valid well_typed_def eq_commute [of Aborted])
qed

lemma future_start_rejected:
  assumes "get_prop (JObj kvs) ''employmentStartDate'' = JDate (Date s)" and "now < s"
  shows "\<not> success (safeParse (employmentSchema now) (JObj kvs))
     \<and> ([''employmentStartDate''], StartDateFuture)
          \<in> set (issues_of (safeParse (employmentSchema now) (JObj kvs)))"
proof -
  have "fst (employment_object now (JObj kvs)) \<noteq> Valid"
    using assms
    by (subst employment_object_unfold) (simp add: merge_status_Valid start_future)
  then have failed: "\<not> success (safeParse (employmentSchema now) (JObj kvs))"
    by (simp add: safeParse_success)
  have "([''employmentStartDate''], StartDateFuture)
          \<in> set (fst (snd (employment_object now (JObj kvs))))"
    using assms by (simp add: employment_object_issue_iff start_future)
  with failed show ?thesis
    by (simp add: safeParse_issues)
qed

lemma end_before_start_rejected:
  assumes "get_prop (JObj kvs) ''employmentStartDate'' = JDate (Date s)"
    and "get_prop (JObj kvs) ''employmentEndDate'' = JDate (Date e)"
    and "e \<le> s"
  shows "\<not> success (safeParse (employmentSchema now) (JObj kvs))
     \<and> (well_typed (JObj kvs) \<longrightarrow>
          ([''employmentEndDate''], EndDateBeforeStart)
            \<in> set (issues_of (safeParse (employmentSchema now) (JObj kvs))))"
proof -
  from assms have rule: "\<not> end_after_start (JObj kvs)"
    by (simp add: end_after_start_dates)
  then have failed: "\<not> success (safeParse (employmentSchema now) (JObj kvs))"
    by (simp add: safeParse_success)
  have "([''employmentEndDate''], EndDateBeforeStart)
            \<in> set (issues_of (safeParse (employmentSchema now) (JObj kvs)))"
    if "well_typed (JObj kvs)"
  proof -
    from that assms have "fst (employment_object now (JObj kvs)) \<noteq> Aborted"
      by (simp add: employment_object_not_aborted)
    with rule failed show ?thesis
      by (simp add: safeParse_issues)
  qed
  with failed show ?thesis by simp
qed

lemma employment_object_no_end_message:
  "(p, EndDateBeforeStart) \<notin> set (fst (snd (employment_object now (JObj kvs))))"
  by (auto simp add: employment_object_issue_iff
        dest: employerName_messages currency_messages income_messages start_messages
          end_messages notes_messages)

lemma end_issue_path:
  assumes "(p, EndDateBeforeStart) \<in> set (issues_of (safeParse (employmentSchema now) (JObj kvs)))"
  shows "p = [''employmentEndDate'']"
proof (cases "success (safeParse (employmentSchema now) (JObj kvs))")
  case True
  with assms show ?thesis by (simp add: success_no_issues)
next
  case False
  with assms employment_object_no_end_message [of p now kvs] show ?thesis
    by (simp add: safeParse_issues split: if_splits)
qed

text \<open>
  A field of the wrong type aborts the parse of the object, and the rule over the two
  dates does not run.
\<close>

lemma employment_object_aborted_untyped:
  assumes "\<not> well_typed (JObj kvs)"
  shows "fst (employment_object now (JObj kvs)) = Aborted"
  using assms
  by (subst employment_object_unfold)
     (auto simp add: merge_status_Aborted employerName_aborted currency_aborted income_aborted
        notes_aborted well_typed_def eq_commute [of Aborted])

lemma end_issue_iff_typed:
  assumes "get_prop (JObj kvs) ''employmentStartDate'' = JDate (Date s)"
    and "get_prop (JObj kvs) ''employmentEndDate'' = JDate (Date e)"
    and "e \<le> s"
  shows "([''employmentEndDate''], EndDateBeforeStart)
            \<in> set (issues_of (safeParse (employmentSchema now) (JObj kvs)))
         \<longleftrightarrow> well_typed (JObj kvs)"
proof (cases "well_typed (JObj kvs)")
  case True
  with end_before_start_rejected [OF assms, of now] show ?thesis by simp
next
  case False
  then have aborted: "fst (employment_object now (JObj kvs)) = Aborted"
    by (rule employment_object_aborted_untyped)
  then have "\<not> success (safeParse (employmentSchema now) (JObj kvs))"
    by (simp add: safeParse_success)
  with aborted False show ?thesis
    by (simp add: safeParse_issues employment_object_no_end_message)
qed

lemma dates_in_order_pass:
  assumes "get_prop (JObj kvs) ''employmentStartDate'' = JDate (Date s)" and "s \<le> now"
    and "get_prop (JObj kvs) ''employmentEndDate'' = JDate (Date e)" and "s < e"
    and "(p, m) \<in> set (issues_of (safeParse (employmentSchema now) (JObj kvs)))"
  shows "p \<noteq> [''employmentStartDate''] \<and> p \<noteq> [''employmentEndDate'']
     \<and> m \<noteq> StartDateFuture \<and> m \<noteq> EndDateBeforeStart"
proof (cases "success (safeParse (employmentSchema now) (JObj kvs))")
  case True
  with assms show ?thesis by (simp add: success_no_issues)
next
  case False
  from assms have "end_after_start (JObj kvs)"
    by (simp add: end_after_start_dates)
  with False assms have "(p, m) \<in> set (fst (snd (employment_object now (JObj kvs))))"
    by (simp add: safeParse_issues)
  with assms show ?thesis
    by (auto simp add: employment_object_issue_iff start_not_future end_date_valid
          dest: employerName_messages currency_messages income_messages notes_messages)
qed

text \<open>
  Claim C7, as stated, fails at a record whose end date is before its start date and
  whose income is the string \<open>abc\<close> (or the number \<open>NaN\<close>): the income is a type
  error, the parse of the object is aborted, the rule over the two dates does not run,
  and no error stands at the path \<open>employmentEndDate\<close>.
\<close>

theorem employmentSchema_end_issue_counterexample:
  "get_prop (JObj (AList.update (str ''annualGrossIncome'') (JStr (str ''abc''))
       (AList.update (str ''employmentEndDate'') (JDate (Date 1672531200000))
          (AList.update (str ''employmentStartDate'') (JDate (Date 1685577600000)) validData))))
     ''employmentStartDate'' = JDate (Date 1685577600000)
   \<and> get_prop (JObj (AList.update (str ''annualGrossIncome'') (JStr (str ''abc''))
       (AList.update (str ''employmentEndDate'') (JDate (Date 1672531200000))
          (AList.update (str ''employmentStartDate'') (JDate (Date 1685577600000)) validData))))
     ''employmentEndDate'' = JDate (Date 1672531200000)
   \<and> (1672531200000 :: int) \<le> 1685577600000
   \<and> issues_of (safeParse (employmentSchema 1704067200000)
        (JObj (AList.update (str ''annualGrossIncome'') (JStr (str ''abc''))
          (AList.update (str ''employmentEndDate'') (JDate (Date 1672531200000))
            (AList.update (str ''employmentStartDate'') (JDate (Date 1685577600000)) validData)))))
      = [([''annualGrossIncome''], IncomeInvalid)]
   \<and> ([''employmentEndDate''], EndDateBeforeStart)
      \<notin> set (issues_of (safeParse (employmentSchema 1704067200000)
        (JObj (AList.update (str ''annualGrossIncome'') (JStr (str ''abc''))
          (AList.update (str ''employmentEndDate'') (JDate (Date 1672531200000))
            (AList.update (str ''employmentStartDate'') (JDate (Date 1685577600000)) validData))))))
   \<and> issues_of (safeParse (employmentSchema 1704067200000)
        (JObj (AList.update (str ''annualGrossIncome'') (JNum NaN)
          (AList.update (str ''employmentEndDate'') (JDate (Date 1672531200000))
            (AList.update (str ''employmentStartDate'') (JDate (Date 1685577600000)) validData)))))
      = [([''annualGrossIncome''], IncomeInvalid)]"
  by code_simp

text \<open>
  Claim C7, amended. For every form object: the validation fails when the start date
  is strictly after the current moment; it fails when the end date is present and on or
  before the start date, and then the error of the rule is among the issues, at the
  path \<open>employmentEndDate\<close>, exactly when the other fields are of their types (so that
  the parse of the object is not aborted before the rule over the two dates runs); that
  error never stands at another path; and with a start date not after the current
  moment and an end date strictly after the start date no issue stands at the paths of
  the two dates or carries one of the two messages.
\<close>

theorem employmentSchema_date_rules:
  "(get_prop (JObj kvs) ''employmentStartDate'' = JDate (Date s) \<and> now < s \<longrightarrow>
      \<not> success (safeParse (employmentSchema now) (JObj kvs))
      \<and> ([''employmentStartDate''], StartDateFuture)
           \<in> set (issues_of (safeParse (employmentSchema now) (JObj kvs))))
   \<and> (get_prop (JObj kvs) ''employmentStartDate'' = JDate (Date s)
        \<and> get_prop (JObj kvs) ''employmentEndDate'' = JDate (Date e) \<and> e \<le> s \<longrightarrow>
      \<not> success (safeParse (employmentSchema now) (JObj kvs))
      \<and> (([''employmentEndDate''], EndDateBeforeStart)
             \<in> set (issues_of (safeParse (employmentSchema now) (JObj kvs)))
           \<longleftrightarrow> well_typed (JObj kvs)))
   \<and> ((p, EndDateBeforeStart) \<in> set (issues_of (safeParse (employmentSchema now) (JObj kvs)))
        \<longrightarrow> p = [''employmentEndDate''])
   \<and> (get_prop (JObj kvs) ''employmentStartDate'' = JDate (Date s) \<and> s \<le> now
        \<and> get_prop (JObj kvs) ''employmentEndDate'' = JDate (Date e) \<and> s < e \<longrightarrow>
      (\<forall>q m. (q, m) \<in> set (issues_of (safeParse (employmentSchema now) (JObj kvs))) \<longrightarrow>
         q \<noteq> [''employmentStartDate''] \<and> q \<noteq> [''employmentEndDate'']
         \<and> m \<noteq> StartDateFuture \<and> m \<noteq> EndDateBeforeStart))"
  using future_start_rejected [of kvs s now] end_before_start_rejected [of kvs s e now]
    end_issue_iff_typed [of kvs s e now]
    end_issue_path [of p now kvs] dates_in_order_pass [of kvs s now e]
  by blast

theorem employmentSchema_date_rules_witness:
  "get_prop (JObj (AList.update (str ''employmentStartDate'') (JDate (Date 1735689600000)) validData))
      ''employmentStartDate'' = JDate (Date 1735689600000)
   \<and> (1704067200000 :: int) < 1735689600000
   \<and> \<not> success (safeParse (employmentSchema 1704067200000)
         (JObj (AList.update (str ''employmentStartDate'') (JDate (Date 1735689600000)) validData)))
   \<and> ([''employmentStartDate''], StartDateFuture)
        \<in> set (issues_of (safeParse (employmentSchema 1704067200000)
             (JObj (AList.update (str ''employmentStartDate'') (JDate (Date 1735689600000)) validData))))
   \<and> get_prop (JObj (AList.update (str ''employmentEndDate'') (JDate (Date 1672531200000))
          (AList.update (str ''employmentStartDate'') (JDate (Date 1685577600000)) validData)))
        ''employmentStartDate'' = JDate (Date 1685577600000)
   \<and> get_prop (JObj (AList.update (str ''employmentEndDate'') (JDate (Date 1672531200000))
          (AList.update (str ''employmentStartDate'') (JDate (Date 1685577600000)) validData)))
        ''employmentEndDate'' = JDate (Date 1672531200000)
   \<and> (1672531200000 :: int) \<le> 1685577600000
   \<and> well_typed (JObj (AList.update (str ''employmentEndDate'') (JDate (Date 1672531200000))
          (AList.update (str ''employmentStartDate'') (JDate (Date 1685577600000)) validData)))
   \<and> \<not> success (safeParse (employmentSchema 1704067200000)
         (JObj (AList.update (str ''employmentEndDate'') (JDate (Date 1672531200000))
            (AList.update (str ''employmentStartDate'') (JDate (Date 1685577600000)) validData))))
   \<and> ([''employmentEndDate''], EndDateBeforeStart)
        \<in> set (issues_of (safeParse (employmentSchema 1704067200000)
             (JObj (AList.update (str ''employmentEndDate'') (JDate (Date 1672531200000))
               (AList.update (str ''employmentStartDate'') (JDate (Date 1685577600000)) validData)))))
   \<and> get_prop (JObj (AList.update (str ''employmentEndDate'') (JDate (Date 1704067200000))
          (AList.update (str ''employerName'') (JStr []) validData)))
        ''employmentStartDate'' = JDate (Date 1672531200000)
   \<and> get_prop (JObj (AList.update (str ''employmentEndDate'') (JDate (Date 1704067200000))
          (AList.update (str ''employerName'') (JStr []) validData)))
        ''employmentEndDate'' = JDate (Date 1704067200000)
   \<and> (1672531200000 :: int) \<le> 1717200000000 \<and> (1672531200000 :: int) < 1704067200000
   \<and> issues_of (safeParse (employmentSchema 1717200000000)
        (JObj (AList.update (str ''employmentEndDate'') (JDate (Date 1704067200000))
          (AList.update (str ''employerName'') (JStr []) validData))))
       = [([''employerName''], EmployerNameRequired)]
   \<and> [''employerName''] \<noteq> [''employmentStartDate'']
   \<and> [''employerName''] \<noteq> [''employmentEndDate'']
   \<and> EmployerNameRequired \<noteq> StartDateFuture \<and> EmployerNameRequired \<noteq> EndDateBeforeStart"
proof -
  let ?future = "AList.update (str ''employmentStartDate'') (JDate (Date 1735689600000)) validData"
  let ?reversed = "AList.update (str ''employmentEndDate'') (JDate (Date 1672531200000))
          (AList.update (str ''employmentStartDate'') (JDate (Date 1685577600000)) validData)"
  let ?ordered = "AList.update (str ''employmentEndDate'') (JDate (Date 1704067200000))
          (AList.update (str ''employerName'') (JStr []) validData)"
  have f1: "get_prop (JObj ?future) ''employmentStartDate'' = JDate (Date 1735689600000)"
    by code_simp
  have r1: "get_prop (JObj ?reversed) ''employmentStartDate'' = JDate (Date 1685577600000)"
    by code_simp
  have r2: "get_prop (JObj ?reversed) ''employmentEndDate'' = JDate (Date 1672531200000)"
    by code_simp
  have r3: "well_typed (JObj ?reversed)"
    by code_simp
  have o1: "get_prop (JObj ?ordered) ''employmentStartDate'' = JDate (Date 1672531200000)"
    by code_simp
  have o2: "get_prop (JObj ?ordered) ''employmentEndDate'' = JDate (Date 1704067200000)"
    by code_simp
  have o3: "issues_of (safeParse (employmentSchema 1717200000000) (JObj ?ordered))
       = [([''employerName''], EmployerNameRequired)]"
    by code_simp
  have lt: "(1704067200000 :: int) < 1735689600000" "(1672531200000 :: int) \<le> 1685577600000"
    "(1672531200000 :: int) \<le> 1717200000000" "(1672531200000 :: int) < 1704067200000"
    by simp_all
  note future = employmentSchema_date_rules [where kvs = "?future" and now = 1704067200000
      and s = 1735689600000 and e = 0 and p = "[]"]
  note reversed = employmentSchema_date_rules [where kvs = "?reversed" and now = 1704067200000
      and s = 1685577600000 and e = 1672531200000 and p = "[''employmentEndDate'']"]
  note ordered = employmentSchema_date_rules [where kvs = "?ordered" and now = 1717200000000
      and s = 1672531200000 and e = 1704067200000 and p = "[]"]
  from future f1 lt(1)
  have a: "\<not> success (safeParse (employmentSchema 1704067200000) (JObj ?future))
     \<and> ([''employmentStartDate''], StartDateFuture)
        \<in> set (issues_of (safeParse (employmentSchema 1704067200000) (JObj ?future)))"
    by blast
  from reversed r1 r2 r3 lt(2)
  have b: "\<not> success (safeParse (employmentSchema 1704067200000) (JObj ?reversed))
     \<and> ([''employmentEndDate''], EndDateBeforeStart)
        \<in> set (issues_of (safeParse (employmentSchema 1704067200000) (JObj ?reversed)))"
    by blast
  from ordered o1 o2 o3 lt(3,4)
  have c: "[''employerName''] \<noteq> [''employmentStartDate'']
   \<and> [''employerName''] \<noteq> [''employmentEndDate'']
   \<and> EmployerNameRequired \<noteq> StartDateFuture \<and> EmployerNameRequired \<noteq> EndDateBeforeStart"
    by simp
  from f1 lt a r1 r2 r3 b o1 o2 o3 c show ?thesis
    by blast
qed

end
